theory Spec2Isabelle
  imports Main
begin

section \<open>Go values shared by the whole back end\<close>

text \<open>
  The Go type \<open>error\<close> as the code builds it: \<open>fmt.Errorf\<close> without \<open>%w\<close> yields an
  \<open>errors.New\<close> value that carries only its text, with \<open>%w\<close> a value that carries
  the text and the wrapped error. Errors coming out of a client library are values of
  the same type. The source's messages are Russian; they are transliterated to ASCII
  here, one message per literal.
\<close>

datatype go_error = ErrorString string | WrapError string go_error

fun Error :: "go_error \<Rightarrow> string" where
  "Error (ErrorString s) = s"
| "Error (WrapError s e) = s"

definition Errorf_w :: "string \<Rightarrow> go_error \<Rightarrow> string \<Rightarrow> go_error" where
  \<comment> \<open>\<open>fmt.Errorf(prefix + "%w" + suffix, err)\<close>\<close>
  "Errorf_w prefix err suffix = WrapError (prefix @ Error err @ suffix) err"

text \<open>A call either returns or panics (a nil pointer dereference unwinds the stack).\<close>

datatype 'a outcome = Returns 'a | Panics

text \<open>\<open>%d\<close> of a non-negative integer.\<close>

definition digit_char :: "nat \<Rightarrow> char" where
  "digit_char n = ''0123456789'' ! n"

function string_of_nat :: "nat \<Rightarrow> string" where
  "string_of_nat n =
     (if n < 10 then [digit_char n] else string_of_nat (n div 10) @ [digit_char (n mod 10)])"
  by pat_completeness auto
termination
  by (relation "measure id") auto

declare string_of_nat.simps [simp del]

text \<open>\<open>models.Connection\<close>; the two timestamps are abstract clock readings.\<close>

record Connection =
  ID :: string
  Name :: string
  Type :: string
  Host :: string
  Port :: string
  Database :: string
  Username :: string
  Password :: string
  SSL :: bool
  Connected :: bool
  CreatedAt :: nat
  UpdatedAt :: nat

definition zero_Connection :: Connection where
  "zero_Connection = \<lparr>ID = [], Name = [], Type = [], Host = [], Port = [], Database = [],
     Username = [], Password = [], SSL = False, Connected = False, CreatedAt = 0,
     UpdatedAt = 0\<rparr>"

section \<open>The outside world: backend sessions and what the remote end answers\<close>

text \<open>
  A session (connection pool, client, socket) opened by a client library is a handle.
  The world counts the handles handed out so far and logs every call of a library
  \<open>Close\<close>/\<open>Disconnect\<close> on a handle, in order.
\<close>

type_synonym handle = nat

record world =
  opened :: nat
  close_log :: "handle list"

definition world0 :: world where
  "world0 = \<lparr>opened = 0, close_log = []\<rparr>"

definition open_session :: "world \<Rightarrow> handle \<times> world" where
  "open_session w = (opened w, w\<lparr>opened := Suc (opened w)\<rparr>)"

definition close_session :: "handle \<Rightarrow> world \<Rightarrow> world" where
  "close_session h w = w\<lparr>close_log := close_log w @ [h]\<rparr>"

definition close_calls :: "world \<Rightarrow> handle \<Rightarrow> nat" where
  "close_calls w h = count_list (close_log w) h"

text \<open>
  What the remote system and the client library answer during one call into an
  adapter. These are inputs of the model: the code under verification only reacts to
  them.
\<close>

record backend =
  parse_err :: "go_error option"
    \<comment> \<open>\<open>pgxpool.ParseConfig\<close>, \<open>clickhouse.ParseDSN\<close>\<close>
  open_err :: "go_error option"
    \<comment> \<open>\<open>pgxpool.NewWithConfig\<close>, \<open>clickhouse.Open\<close>, \<open>mongo.Connect\<close>,
        \<open>cluster.CreateSession\<close>, \<open>aerospike.NewClientWithPolicyAndHost\<close>, \<open>zk.Connect\<close>\<close>
  ping_err :: "go_error option"
    \<comment> \<open>the liveness probe on an open session\<close>
  close_err :: "go_error option"
    \<comment> \<open>what the library's \<open>Close()\<close>/\<open>Disconnect(ctx)\<close> returns where it returns an error\<close>
  lib_connected :: bool
    \<comment> \<open>\<open>client.IsConnected()\<close> of Aerospike, the connected states of \<open>zk.Conn.State()\<close>\<close>
  auth_err :: "go_error option"
    \<comment> \<open>\<open>zk.Conn.AddAuth\<close>\<close>
  req_err :: "string \<Rightarrow> go_error option"
    \<comment> \<open>\<open>http.NewRequestWithContext\<close> for a URL\<close>
  do_result :: "string \<Rightarrow> go_error + nat"
    \<comment> \<open>\<open>http.Client.Do\<close> for a URL: a transport error or the status code\<close>
  version_header :: string
    \<comment> \<open>the response header \<open>X-Influxdb-Version\<close>\<close>

definition err_not_established :: go_error where
  \<comment> \<open>\<open>fmt.Errorf("podklyuchenie ne ustanovleno")\<close>: connection not established\<close>
  "err_not_established = ErrorString ''podklyuchenie ne ustanovleno''"

section \<open>Adapters: lifecycle\<close>

subsection \<open>PostgreSQL, and the two adapters that embed it\<close>

datatype PostgreSQLDriver = PostgreSQLDriver (pool: "handle option") (pg_conn: Connection)

definition NewPostgreSQLDriver :: PostgreSQLDriver where
  "NewPostgreSQLDriver = PostgreSQLDriver None zero_Connection"

definition PostgreSQLDriver_Connect ::
  "backend \<Rightarrow> Connection \<Rightarrow> PostgreSQLDriver \<Rightarrow> world \<Rightarrow> go_error option \<times> PostgreSQLDriver \<times> world"
where
  "PostgreSQLDriver_Connect b conn d w =
     (let port = (if Port conn = [] then ''5432'' else Port conn) in
      if Password conn = [] then
        (Some (ErrorString ''parol ne ukazan dlya podklyucheniya''), d, w)
      else case parse_err b of
        Some err \<Rightarrow> (Some (Errorf_w ''oshibka sozdaniya konfiguratsii: '' err []), d, w)
      | None \<Rightarrow>
         (case open_err b of
            Some err \<Rightarrow>
              (Some (Errorf_w ''oshibka podklyucheniya k PostgreSQL: '' err
                 ('' (host='' @ Host conn @ '', port='' @ port @ '', polzovatel='' @ Username conn
                  @ '', baza='' @ Database conn @ '', dlina_parolya=''
                  @ string_of_nat (length (Password conn)) @ '')'')), d, w)
          | None \<Rightarrow>
             (let (h, w1) = open_session w in
              case ping_err b of
                Some err \<Rightarrow>
                  (Some (Errorf_w ''oshibka ping PostgreSQL: '' err
                     ('' (host='' @ Host conn @ '', port='' @ port @ '', polzovatel=''
                      @ Username conn @ '', baza='' @ Database conn @ '')'')),
                   d, close_session h w1)
              | None \<Rightarrow> (None, PostgreSQLDriver (Some h) conn, w1))))"

definition PostgreSQLDriver_Disconnect ::
  "PostgreSQLDriver \<Rightarrow> world \<Rightarrow> go_error option \<times> PostgreSQLDriver \<times> world"
where
  "PostgreSQLDriver_Disconnect d w =
     (case pool d of
        Some h \<Rightarrow> (None, PostgreSQLDriver None (pg_conn d), close_session h w)
      | None \<Rightarrow> (None, d, w))"

definition PostgreSQLDriver_IsConnected :: "backend \<Rightarrow> PostgreSQLDriver \<Rightarrow> bool" where
  "PostgreSQLDriver_IsConnected b d = (if pool d = None then False else ping_err b = None)"

definition PostgreSQLDriver_Ping :: "backend \<Rightarrow> PostgreSQLDriver \<Rightarrow> go_error option" where
  "PostgreSQLDriver_Ping b d = (if pool d = None then Some err_not_established else ping_err b)"

subsection \<open>ClickHouse\<close>

datatype ClickHouseDriver = ClickHouseDriver (ch_conn: "handle option") (dbConn: Connection)

definition NewClickHouseDriver :: ClickHouseDriver where
  "NewClickHouseDriver = ClickHouseDriver None zero_Connection"

definition ClickHouseDriver_Connect ::
  "backend \<Rightarrow> Connection \<Rightarrow> ClickHouseDriver \<Rightarrow> world \<Rightarrow> go_error option \<times> ClickHouseDriver \<times> world"
where
  "ClickHouseDriver_Connect b conn d w =
     (case parse_err b of
        Some err \<Rightarrow> (Some (Errorf_w ''oshibka parsinga DSN: '' err []), d, w)
      | None \<Rightarrow>
         (case open_err b of
            Some err \<Rightarrow> (Some (Errorf_w ''oshibka podklyucheniya k ClickHouse: '' err []), d, w)
          | None \<Rightarrow>
             (let (h, w1) = open_session w in
              case ping_err b of
                Some err \<Rightarrow> (Some (Errorf_w ''oshibka ping ClickHouse: '' err []), d, w1)
              | None \<Rightarrow> (None, ClickHouseDriver (Some h) conn, w1))))"

definition ClickHouseDriver_Disconnect ::
  "backend \<Rightarrow> ClickHouseDriver \<Rightarrow> world \<Rightarrow> go_error option \<times> ClickHouseDriver \<times> world"
where
  "ClickHouseDriver_Disconnect b d w =
     (case ch_conn d of
        Some h \<Rightarrow> (close_err b, d, close_session h w)
      | None \<Rightarrow> (None, d, w))"

definition ClickHouseDriver_IsConnected :: "backend \<Rightarrow> ClickHouseDriver \<Rightarrow> bool" where
  "ClickHouseDriver_IsConnected b d = (if ch_conn d = None then False else ping_err b = None)"

definition ClickHouseDriver_Ping :: "backend \<Rightarrow> ClickHouseDriver \<Rightarrow> go_error option" where
  "ClickHouseDriver_Ping b d = (if ch_conn d = None then Some err_not_established else ping_err b)"

subsection \<open>Aerospike\<close>

datatype AerospikeDriver = AerospikeDriver (as_client: "handle option") (as_conn: Connection)

definition NewAerospikeDriver :: AerospikeDriver where
  "NewAerospikeDriver = AerospikeDriver None zero_Connection"

definition AerospikeDriver_Connect ::
  "backend \<Rightarrow> Connection \<Rightarrow> AerospikeDriver \<Rightarrow> world \<Rightarrow> go_error option \<times> AerospikeDriver \<times> world"
where
  "AerospikeDriver_Connect b conn d w =
     (case open_err b of
        Some err \<Rightarrow> (Some (Errorf_w ''oshibka podklyucheniya k Aerospike: '' err []), d, w)
      | None \<Rightarrow>
         (let (h, w1) = open_session w in
          if \<not> lib_connected b then
            (Some (ErrorString ''ne udalos ustanovit podklyuchenie k Aerospike''), d, w1)
          else (None, AerospikeDriver (Some h) conn, w1)))"

definition AerospikeDriver_Disconnect ::
  "AerospikeDriver \<Rightarrow> world \<Rightarrow> go_error option \<times> AerospikeDriver \<times> world"
where
  "AerospikeDriver_Disconnect d w =
     (case as_client d of
        Some h \<Rightarrow> (None, AerospikeDriver None (as_conn d), close_session h w)
      | None \<Rightarrow> (None, d, w))"

definition AerospikeDriver_IsConnected :: "backend \<Rightarrow> AerospikeDriver \<Rightarrow> bool" where
  "AerospikeDriver_IsConnected b d = (as_client d \<noteq> None \<and> lib_connected b)"

definition AerospikeDriver_Ping :: "backend \<Rightarrow> AerospikeDriver \<Rightarrow> go_error option" where
  "AerospikeDriver_Ping b d =
     (if as_client d = None then Some err_not_established
      else if \<not> lib_connected b then Some (ErrorString ''podklyuchenie razorvano'')
      else None)"

subsection \<open>MongoDB, Redis, Cassandra, Zookeeper\<close>

datatype MongoDBDriver = MongoDBDriver (mg_client: "handle option") (mg_conn: Connection)

definition NewMongoDBDriver :: MongoDBDriver where
  "NewMongoDBDriver = MongoDBDriver None zero_Connection"

definition MongoDBDriver_Connect ::
  "backend \<Rightarrow> Connection \<Rightarrow> MongoDBDriver \<Rightarrow> world \<Rightarrow> go_error option \<times> MongoDBDriver \<times> world"
where
  "MongoDBDriver_Connect b conn d w =
     (case open_err b of
        Some err \<Rightarrow> (Some (Errorf_w ''oshibka podklyucheniya k MongoDB: '' err []), d, w)
      | None \<Rightarrow>
         (let (h, w1) = open_session w in
          case ping_err b of
            Some err \<Rightarrow> (Some (Errorf_w ''oshibka ping MongoDB: '' err []), d, w1)
          | None \<Rightarrow> (None, MongoDBDriver (Some h) conn, w1)))"

definition MongoDBDriver_Disconnect ::
  "backend \<Rightarrow> MongoDBDriver \<Rightarrow> world \<Rightarrow> go_error option \<times> MongoDBDriver \<times> world"
where
  "MongoDBDriver_Disconnect b d w =
     (case mg_client d of
        Some h \<Rightarrow> (close_err b, d, close_session h w)
      | None \<Rightarrow> (None, d, w))"

definition MongoDBDriver_IsConnected :: "backend \<Rightarrow> MongoDBDriver \<Rightarrow> bool" where
  "MongoDBDriver_IsConnected b d = (if mg_client d = None then False else ping_err b = None)"

datatype RedisDriver = RedisDriver (rd_client: "handle option") (rd_conn: Connection)

definition NewRedisDriver :: RedisDriver where
  "NewRedisDriver = RedisDriver None zero_Connection"

definition RedisDriver_Connect ::
  "backend \<Rightarrow> Connection \<Rightarrow> RedisDriver \<Rightarrow> world \<Rightarrow> go_error option \<times> RedisDriver \<times> world"
where
  "RedisDriver_Connect b conn d w =
     (let (h, w1) = open_session w in
      case ping_err b of
        Some err \<Rightarrow> (Some (Errorf_w ''oshibka podklyucheniya k Redis: '' err []), d, w1)
      | None \<Rightarrow> (None, RedisDriver (Some h) conn, w1))"

definition RedisDriver_Disconnect ::
  "backend \<Rightarrow> RedisDriver \<Rightarrow> world \<Rightarrow> go_error option \<times> RedisDriver \<times> world"
where
  "RedisDriver_Disconnect b d w =
     (case rd_client d of
        Some h \<Rightarrow> (close_err b, d, close_session h w)
      | None \<Rightarrow> (None, d, w))"

definition RedisDriver_IsConnected :: "backend \<Rightarrow> RedisDriver \<Rightarrow> bool" where
  "RedisDriver_IsConnected b d = (if rd_client d = None then False else ping_err b = None)"

datatype CassandraDriver = CassandraDriver (session: "handle option") (cs_conn: Connection)

definition NewCassandraDriver :: CassandraDriver where
  "NewCassandraDriver = CassandraDriver None zero_Connection"

definition CassandraDriver_Connect ::
  "backend \<Rightarrow> Connection \<Rightarrow> CassandraDriver \<Rightarrow> world \<Rightarrow> go_error option \<times> CassandraDriver \<times> world"
where
  "CassandraDriver_Connect b conn d w =
     (case open_err b of
        Some err \<Rightarrow> (Some (Errorf_w ''oshibka podklyucheniya k Cassandra: '' err []), d, w)
      | None \<Rightarrow> (let (h, w1) = open_session w in (None, CassandraDriver (Some h) conn, w1)))"

definition CassandraDriver_Disconnect ::
  "CassandraDriver \<Rightarrow> world \<Rightarrow> go_error option \<times> CassandraDriver \<times> world"
where
  "CassandraDriver_Disconnect d w =
     (case session d of
        Some h \<Rightarrow> (None, CassandraDriver None (cs_conn d), close_session h w)
      | None \<Rightarrow> (None, d, w))"

definition CassandraDriver_IsConnected :: "CassandraDriver \<Rightarrow> world \<Rightarrow> bool" where
  \<comment> \<open>\<open>d.session.Closed() == false\<close>: the library's flag, set by its \<open>Close\<close>\<close>
  "CassandraDriver_IsConnected d w =
     (case session d of None \<Rightarrow> False | Some h \<Rightarrow> h \<notin> set (close_log w))"

datatype ZookeeperDriver = ZookeeperDriver (zk_conn: "handle option") (connInfo: Connection)

definition NewZookeeperDriver :: ZookeeperDriver where
  "NewZookeeperDriver = ZookeeperDriver None zero_Connection"

definition ZookeeperDriver_Connect ::
  "backend \<Rightarrow> Connection \<Rightarrow> ZookeeperDriver \<Rightarrow> world \<Rightarrow> go_error option \<times> ZookeeperDriver \<times> world"
where
  \<comment> \<open>\<open>d.conn, _, err = zk.Connect(...)\<close> assigns the field before the error check\<close>
  "ZookeeperDriver_Connect b conn d w =
     (case open_err b of
        Some err \<Rightarrow>
          (Some (Errorf_w ''oshibka podklyucheniya k Zookeeper: '' err []),
           ZookeeperDriver None (connInfo d), w)
      | None \<Rightarrow>
         (let (h, w1) = open_session w; d1 = ZookeeperDriver (Some h) (connInfo d) in
          if Username conn \<noteq> [] \<and> Password conn \<noteq> [] then
            (case auth_err b of
               Some err \<Rightarrow> (Some (Errorf_w ''oshibka autentifikatsii: '' err []), d1, w1)
             | None \<Rightarrow> (None, ZookeeperDriver (Some h) conn, w1))
          else (None, ZookeeperDriver (Some h) conn, w1)))"

definition ZookeeperDriver_Disconnect ::
  "ZookeeperDriver \<Rightarrow> world \<Rightarrow> go_error option \<times> ZookeeperDriver \<times> world"
where
  "ZookeeperDriver_Disconnect d w =
     (case zk_conn d of
        Some h \<Rightarrow> (None, ZookeeperDriver None (connInfo d), close_session h w)
      | None \<Rightarrow> (None, d, w))"

definition ZookeeperDriver_IsConnected :: "backend \<Rightarrow> ZookeeperDriver \<Rightarrow> bool" where
  "ZookeeperDriver_IsConnected b d = (if zk_conn d = None then False else lib_connected b)"

subsection \<open>The adapters that speak HTTP\<close>

text \<open>
  Elasticsearch, Meilisearch, InfluxDB, Neo4j, Couchbase, Druid, Kafka and RabbitMQ are
  eight struct types with the same fields (\<open>client\<close>, \<open>baseURL\<close>, \<open>conn\<close>; InfluxDB also
  \<open>version\<close>) and the same lifecycle code up to the probe URL, the accepted status
  codes and the message prefix. \<open>client\<close> records whether the \<open>*http.Client\<close> field is
  non-nil.
\<close>

datatype http_kind =
  Elasticsearch | Meilisearch | InfluxDB | Neo4j | Couchbase | Druid | Kafka | RabbitMQ

datatype HTTPDriver =
  HTTPDriver (hkind: http_kind) (client: bool) (baseURL: string) (http_conn: Connection)
    (version: string)

definition NewHTTPDriver :: "http_kind \<Rightarrow> HTTPDriver" where
  "NewHTTPDriver k = HTTPDriver k True [] zero_Connection []"

definition getDatabase :: "HTTPDriver \<Rightarrow> string" where
  "getDatabase d = (if Database (http_conn d) \<noteq> [] then Database (http_conn d) else ''neo4j'')"

fun pingURL :: "http_kind \<Rightarrow> HTTPDriver \<Rightarrow> string" where
  "pingURL Elasticsearch d = baseURL d"
| "pingURL Meilisearch d = baseURL d @ ''/health''"
| "pingURL InfluxDB d = baseURL d @ ''/ping''"
| "pingURL Neo4j d = baseURL d @ ''/db/'' @ getDatabase d"
| "pingURL Couchbase d = baseURL d @ ''/pools''"
| "pingURL Druid d = baseURL d @ ''/status''"
| "pingURL Kafka d = baseURL d @ ''/topics''"
| "pingURL RabbitMQ d = baseURL d @ ''/api/overview''"

fun ping_status_ok :: "http_kind \<Rightarrow> nat \<Rightarrow> bool" where
  "ping_status_ok InfluxDB st = (st = 204 \<or> st = 200)"
| "ping_status_ok Kafka st = (st = 200 \<or> st = 404)"
| "ping_status_ok k st = (st = 200)"

fun connect_prefix :: "http_kind \<Rightarrow> string" where
  "connect_prefix Elasticsearch = ''oshibka podklyucheniya k Elasticsearch: ''"
| "connect_prefix Meilisearch = ''oshibka podklyucheniya k Meilisearch: ''"
| "connect_prefix InfluxDB = ''oshibka podklyucheniya k InfluxDB: ''"
| "connect_prefix Neo4j = ''oshibka podklyucheniya k Neo4j: ''"
| "connect_prefix Couchbase = ''oshibka podklyucheniya k Couchbase: ''"
| "connect_prefix Druid = ''oshibka podklyucheniya k Druid: ''"
| "connect_prefix Kafka = ''oshibka podklyucheniya k Kafka: ''"
| "connect_prefix RabbitMQ = ''oshibka podklyucheniya k RabbitMQ: ''"

definition HTTPDriver_Ping :: "backend \<Rightarrow> HTTPDriver \<Rightarrow> go_error option outcome" where
  \<comment> \<open>\<open>d.client.Do(req)\<close> on a nil \<open>client\<close> dereferences nil\<close>
  "HTTPDriver_Ping b d =
     (if baseURL d = [] then Returns (Some err_not_established)
      else case req_err b (pingURL (hkind d) d) of
        Some err \<Rightarrow> Returns (Some err)
      | None \<Rightarrow>
         (if \<not> client d then Panics
          else case do_result b (pingURL (hkind d) d) of
            Inl err \<Rightarrow> Returns (Some err)
          | Inr st \<Rightarrow>
             (if \<not> ping_status_ok (hkind d) st
              then Returns (Some (ErrorString (''oshibka ping: status '' @ string_of_nat st)))
              else Returns None)))"

definition detectVersion :: "backend \<Rightarrow> HTTPDriver \<Rightarrow> go_error option outcome \<times> HTTPDriver" where
  "detectVersion b d =
     (case req_err b (baseURL d @ ''/ping'') of
        Some err \<Rightarrow> (Returns (Some err), d)
      | None \<Rightarrow>
         (if \<not> client d then (Panics, d)
          else case do_result b (baseURL d @ ''/ping'') of
            Inl err \<Rightarrow> (Returns (Some err), d)
          | Inr st \<Rightarrow>
             (Returns None,
              HTTPDriver (hkind d) (client d) (baseURL d) (http_conn d)
                (if version_header b \<noteq> [] \<and> take 2 (version_header b) = ''2.'' then ''2''
                 else ''1''))))"

definition HTTPDriver_Connect ::
  "backend \<Rightarrow> Connection \<Rightarrow> HTTPDriver \<Rightarrow> go_error option outcome \<times> HTTPDriver"
where
  "HTTPDriver_Connect b conn d =
     (let scheme = (if SSL conn then ''https'' else ''http'');
          d1 = HTTPDriver (hkind d) (client d)
                 (scheme @ ''://'' @ Host conn @ '':'' @ Port conn) conn (version d);
          (v, d2) = (if hkind d = InfluxDB then detectVersion b d1 else (Returns None, d1))
      in case v of
        Panics \<Rightarrow> (Panics, d2)
      | Returns (Some err) \<Rightarrow>
          (Returns (Some (Errorf_w ''oshibka opredeleniya versii InfluxDB: '' err [])), d2)
      | Returns None \<Rightarrow>
         (case HTTPDriver_Ping b d2 of
            Panics \<Rightarrow> (Panics, d2)
          | Returns (Some err) \<Rightarrow>
              (Returns (Some (Errorf_w (connect_prefix (hkind d)) err [])), d2)
          | Returns None \<Rightarrow> (Returns None, d2)))"

definition HTTPDriver_Disconnect :: "HTTPDriver \<Rightarrow> go_error option \<times> HTTPDriver" where
  "HTTPDriver_Disconnect d = (None, HTTPDriver (hkind d) False [] (http_conn d) (version d))"

definition HTTPDriver_IsConnected :: "backend \<Rightarrow> HTTPDriver \<Rightarrow> bool outcome" where
  "HTTPDriver_IsConnected b d =
     (if baseURL d = [] then Returns False
      else case HTTPDriver_Ping b d of
        Panics \<Rightarrow> Panics
      | Returns r \<Rightarrow> Returns (r = None))"

section \<open>The driver interface and the factory\<close>

text \<open>
  \<open>DatabaseDriver\<close> is an interface with seventeen implementations; a value of it is one
  of them. \<open>SupabaseDriver\<close> and \<open>CockroachDBDriver\<close> embed a \<open>*PostgreSQLDriver\<close> and
  forward \<open>Connect\<close> to it; every other method is the promoted PostgreSQL one.
\<close>

datatype driver =
    DPostgreSQL PostgreSQLDriver
  | DSupabase PostgreSQLDriver
  | DCockroachDB PostgreSQLDriver
  | DClickHouse ClickHouseDriver
  | DAerospike AerospikeDriver
  | DMongoDB MongoDBDriver
  | DRedis RedisDriver
  | DCassandra CassandraDriver
  | DZookeeper ZookeeperDriver
  | DHTTP HTTPDriver

definition CreateDriver :: "string \<Rightarrow> driver option" where
  "CreateDriver dbType =
     (if dbType = ''PostgreSQL'' then Some (DPostgreSQL NewPostgreSQLDriver)
      else if dbType = ''MongoDB'' then Some (DMongoDB NewMongoDBDriver)
      else if dbType = ''Elasticsearch'' then Some (DHTTP (NewHTTPDriver Elasticsearch))
      else if dbType = ''Meilisearch'' then Some (DHTTP (NewHTTPDriver Meilisearch))
      else if dbType = ''ClickHouse'' then Some (DClickHouse NewClickHouseDriver)
      else if dbType = ''Cassandra'' then Some (DCassandra NewCassandraDriver)
      else if dbType = ''Aerospike'' then Some (DAerospike NewAerospikeDriver)
      else if dbType = ''Redis'' then Some (DRedis NewRedisDriver)
      else if dbType = ''InfluxDB'' then Some (DHTTP (NewHTTPDriver InfluxDB))
      else if dbType = ''Neo4j'' then Some (DHTTP (NewHTTPDriver Neo4j))
      else if dbType = ''Couchbase'' then Some (DHTTP (NewHTTPDriver Couchbase))
      else if dbType = ''Supabase'' then Some (DSupabase NewPostgreSQLDriver)
      else if dbType = ''Druid'' then Some (DHTTP (NewHTTPDriver Druid))
      else if dbType = ''CockroachDB'' then Some (DCockroachDB NewPostgreSQLDriver)
      else if dbType = ''Kafka'' then Some (DHTTP (NewHTTPDriver Kafka))
      else if dbType = ''RabbitMQ'' then Some (DHTTP (NewHTTPDriver RabbitMQ))
      else if dbType = ''Zookeeper'' then Some (DZookeeper NewZookeeperDriver)
      else None)"

definition lift3 :: "('d \<Rightarrow> driver) \<Rightarrow> go_error option \<times> 'd \<times> world
    \<Rightarrow> go_error option outcome \<times> driver \<times> world" where
  "lift3 C r = (case r of (e, d, w) \<Rightarrow> (Returns e, C d, w))"

fun driver_Connect ::
  "backend \<Rightarrow> Connection \<Rightarrow> driver \<Rightarrow> world \<Rightarrow> go_error option outcome \<times> driver \<times> world"
where
  "driver_Connect b conn (DPostgreSQL d) w = lift3 DPostgreSQL (PostgreSQLDriver_Connect b conn d w)"
| "driver_Connect b conn (DSupabase d) w = lift3 DSupabase (PostgreSQLDriver_Connect b conn d w)"
| "driver_Connect b conn (DCockroachDB d) w = lift3 DCockroachDB (PostgreSQLDriver_Connect b conn d w)"
| "driver_Connect b conn (DClickHouse d) w = lift3 DClickHouse (ClickHouseDriver_Connect b conn d w)"
| "driver_Connect b conn (DAerospike d) w = lift3 DAerospike (AerospikeDriver_Connect b conn d w)"
| "driver_Connect b conn (DMongoDB d) w = lift3 DMongoDB (MongoDBDriver_Connect b conn d w)"
| "driver_Connect b conn (DRedis d) w = lift3 DRedis (RedisDriver_Connect b conn d w)"
| "driver_Connect b conn (DCassandra d) w = lift3 DCassandra (CassandraDriver_Connect b conn d w)"
| "driver_Connect b conn (DZookeeper d) w = lift3 DZookeeper (ZookeeperDriver_Connect b conn d w)"
| "driver_Connect b conn (DHTTP d) w =
     (case HTTPDriver_Connect b conn d of (r, d') \<Rightarrow> (r, DHTTP d', w))"

fun driver_Disconnect ::
  "backend \<Rightarrow> driver \<Rightarrow> world \<Rightarrow> go_error option \<times> driver \<times> world"
where
  "driver_Disconnect b (DPostgreSQL d) w =
     (case PostgreSQLDriver_Disconnect d w of (e, d', w') \<Rightarrow> (e, DPostgreSQL d', w'))"
| "driver_Disconnect b (DSupabase d) w =
     (case PostgreSQLDriver_Disconnect d w of (e, d', w') \<Rightarrow> (e, DSupabase d', w'))"
| "driver_Disconnect b (DCockroachDB d) w =
     (case PostgreSQLDriver_Disconnect d w of (e, d', w') \<Rightarrow> (e, DCockroachDB d', w'))"
| "driver_Disconnect b (DClickHouse d) w =
     (case ClickHouseDriver_Disconnect b d w of (e, d', w') \<Rightarrow> (e, DClickHouse d', w'))"
| "driver_Disconnect b (DAerospike d) w =
     (case AerospikeDriver_Disconnect d w of (e, d', w') \<Rightarrow> (e, DAerospike d', w'))"
| "driver_Disconnect b (DMongoDB d) w =
     (case MongoDBDriver_Disconnect b d w of (e, d', w') \<Rightarrow> (e, DMongoDB d', w'))"
| "driver_Disconnect b (DRedis d) w =
     (case RedisDriver_Disconnect b d w of (e, d', w') \<Rightarrow> (e, DRedis d', w'))"
| "driver_Disconnect b (DCassandra d) w =
     (case CassandraDriver_Disconnect d w of (e, d', w') \<Rightarrow> (e, DCassandra d', w'))"
| "driver_Disconnect b (DZookeeper d) w =
     (case ZookeeperDriver_Disconnect d w of (e, d', w') \<Rightarrow> (e, DZookeeper d', w'))"
| "driver_Disconnect b (DHTTP d) w =
     (case HTTPDriver_Disconnect d of (e, d') \<Rightarrow> (e, DHTTP d', w))"

fun driver_IsConnected :: "backend \<Rightarrow> driver \<Rightarrow> world \<Rightarrow> bool outcome" where
  "driver_IsConnected b (DPostgreSQL d) w = Returns (PostgreSQLDriver_IsConnected b d)"
| "driver_IsConnected b (DSupabase d) w = Returns (PostgreSQLDriver_IsConnected b d)"
| "driver_IsConnected b (DCockroachDB d) w = Returns (PostgreSQLDriver_IsConnected b d)"
| "driver_IsConnected b (DClickHouse d) w = Returns (ClickHouseDriver_IsConnected b d)"
| "driver_IsConnected b (DAerospike d) w = Returns (AerospikeDriver_IsConnected b d)"
| "driver_IsConnected b (DMongoDB d) w = Returns (MongoDBDriver_IsConnected b d)"
| "driver_IsConnected b (DRedis d) w = Returns (RedisDriver_IsConnected b d)"
| "driver_IsConnected b (DCassandra d) w = Returns (CassandraDriver_IsConnected d w)"
| "driver_IsConnected b (DZookeeper d) w = Returns (ZookeeperDriver_IsConnected b d)"
| "driver_IsConnected b (DHTTP d) w = HTTPDriver_IsConnected b d"

text \<open>The session handle an adapter instance holds, if any.\<close>

fun driver_handle :: "driver \<Rightarrow> handle option" where
  "driver_handle (DPostgreSQL d) = pool d"
| "driver_handle (DSupabase d) = pool d"
| "driver_handle (DCockroachDB d) = pool d"
| "driver_handle (DClickHouse d) = ch_conn d"
| "driver_handle (DAerospike d) = as_client d"
| "driver_handle (DMongoDB d) = mg_client d"
| "driver_handle (DRedis d) = rd_client d"
| "driver_handle (DCassandra d) = session d"
| "driver_handle (DZookeeper d) = zk_conn d"
| "driver_handle (DHTTP d) = None"

section \<open>The connection manager\<close>

text \<open>
  \<open>ConnectionManager\<close>: the registry \<open>drivers\<close>. The factory has no state, and the
  mutex serialises the methods, each of which is modelled as one atomic step.
\<close>

record ConnectionManager =
  drivers :: "string \<rightharpoonup> driver"

definition NewConnectionManager :: ConnectionManager where
  "NewConnectionManager = \<lparr>drivers = Map.empty\<rparr>"

definition err_not_found :: "string \<Rightarrow> go_error" where
  \<comment> \<open>\<open>fmt.Errorf("podklyuchenie s ID %s ne naydeno", connectionID)\<close>\<close>
  "err_not_found connectionID =
     ErrorString (''podklyuchenie s ID '' @ connectionID @ '' ne naydeno'')"

definition Connect ::
  "backend \<Rightarrow> Connection \<Rightarrow> ConnectionManager \<Rightarrow> world
     \<Rightarrow> go_error option outcome \<times> ConnectionManager \<times> world"
where
  "Connect b conn m w =
     (case CreateDriver (Type conn) of
        None \<Rightarrow> (Returns (Some (ErrorString (''nepodderzhivaemyi tip BD: '' @ Type conn))), m, w)
      | Some driver \<Rightarrow>
         (case driver_Connect b conn driver w of
            (Panics, d', w') \<Rightarrow> (Panics, m, w')
          | (Returns (Some err), d', w') \<Rightarrow>
              (Returns (Some (Errorf_w ''oshibka podklyucheniya: '' err [])), m, w')
          | (Returns None, d', w') \<Rightarrow>
              (Returns None, m\<lparr>drivers := (drivers m)(ID conn \<mapsto> d')\<rparr>, w')))"

definition Disconnect ::
  "backend \<Rightarrow> string \<Rightarrow> ConnectionManager \<Rightarrow> world
     \<Rightarrow> go_error option \<times> ConnectionManager \<times> world"
where
  \<comment> \<open>the registry holds a pointer: what the adapter's \<open>Disconnect\<close> changed in the
      instance stays visible through the registry when the entry is kept\<close>
  "Disconnect b connectionID m w =
     (case drivers m connectionID of
        None \<Rightarrow> (Some (err_not_found connectionID), m, w)
      | Some driver \<Rightarrow>
         (case driver_Disconnect b driver w of
            (Some err, d', w') \<Rightarrow>
              (Some (Errorf_w ''oshibka otklyucheniya: '' err []),
               m\<lparr>drivers := (drivers m)(connectionID \<mapsto> d')\<rparr>, w')
          | (None, d', w') \<Rightarrow>
              (None, m\<lparr>drivers := (drivers m)(connectionID := None)\<rparr>, w')))"

definition GetDriver :: "string \<Rightarrow> ConnectionManager \<Rightarrow> go_error + driver" where
  "GetDriver connectionID m =
     (case drivers m connectionID of
        None \<Rightarrow> Inl (err_not_found connectionID)
      | Some driver \<Rightarrow> Inr driver)"

definition IsConnected :: "backend \<Rightarrow> string \<Rightarrow> ConnectionManager \<Rightarrow> world \<Rightarrow> bool outcome" where
  "IsConnected b connectionID m w =
     (case drivers m connectionID of
        None \<Rightarrow> Returns False
      | Some driver \<Rightarrow> driver_IsConnected b driver w)"

section \<open>Call sequences and fixtures\<close>

text \<open>
  \<open>Disconnect_times bs id\<close> calls the manager's \<open>Disconnect(id)\<close> once per element of
  \<open>bs\<close> (the remote end's answers during that call) and collects the returned errors.
\<close>

fun Disconnect_times ::
  "backend list \<Rightarrow> string \<Rightarrow> ConnectionManager \<Rightarrow> world
     \<Rightarrow> go_error option list \<times> ConnectionManager \<times> world"
where
  "Disconnect_times [] connectionID m w = ([], m, w)"
| "Disconnect_times (b # bs) connectionID m w =
     (case Disconnect b connectionID m w of
        (r, m', w') \<Rightarrow>
          (case Disconnect_times bs connectionID m' w' of
             (rs, m'', w'') \<Rightarrow> (r # rs, m'', w'')))"

text \<open>Concrete inputs: backends that answer well or fail at one point, two descriptors,
  and the manager after one successful \<open>Connect\<close>.\<close>

definition b_ok :: backend where
  "b_ok = \<lparr>parse_err = None, open_err = None, ping_err = None, close_err = None,
     lib_connected = True, auth_err = None, req_err = (\<lambda>u. None),
     do_result = (\<lambda>u. Inr 200), version_header = []\<rparr>"

definition b_close_fails :: backend where
  "b_close_fails = b_ok\<lparr>close_err := Some (ErrorString ''close failed'')\<rparr>"

definition b_ping_fails :: backend where
  "b_ping_fails = b_ok\<lparr>ping_err := Some (ErrorString ''timeout'')\<rparr>"

definition pg1 :: Connection where
  "pg1 = zero_Connection\<lparr>ID := ''c1'', Type := ''PostgreSQL'', Password := ''pw''\<rparr>"

definition ch1 :: Connection where
  "ch1 = zero_Connection\<lparr>ID := ''c2'', Type := ''ClickHouse'', Password := ''pw''\<rparr>"

definition m_pg :: ConnectionManager where
  "m_pg = fst (snd (Connect b_ok pg1 NewConnectionManager world0))"

definition w_pg :: world where
  "w_pg = snd (snd (Connect b_ok pg1 NewConnectionManager world0))"

definition m_ch :: ConnectionManager where
  "m_ch = fst (snd (Connect b_ok ch1 NewConnectionManager world0))"

definition w_ch :: world where
  "w_ch = snd (snd (Connect b_ok ch1 NewConnectionManager world0))"
section \<open>Persisted descriptors: package config\<close>

text \<open>
  Package \<open>config\<close> keeps the descriptors in the package variable \<open>connections\<close>, a slice,
  and writes the whole collection to a file on every save. A slice is a window on a
  backing array: several slices and pointers can share one array, and the handlers
  write through them. The arrays therefore live in a heap: an array is a list of
  slots, never freed and never shortened; an address is its position in the heap. A
  slice is the address of its array and its length (its capacity is the length of the
  array), a pointer \<open>&connections[i]\<close> is an address and a slot number.
\<close>

type_synonym addr = nat

record slice =
  arr :: addr
  len :: nat

type_synonym ptr = "addr \<times> nat"

text \<open>
  The process state the handlers work on: the heap, the package variable, the content
  of the connections file as last written, the connection manager, and the world of
  backend sessions.
\<close>

record app =
  heap :: "Connection list list"
  connections :: slice
  connectionsFile :: "Connection list"
  connManager :: ConnectionManager
  sessions :: world

text \<open>
  Slices and pointers of a Go program never refer outside an allocated array; the
  \<open>else\<close> branches below are there to make the functions total and are not reached from
  a well-formed state.
\<close>

definition array_at :: "app \<Rightarrow> addr \<Rightarrow> Connection list" where
  "array_at st a = (if a < length (heap st) then heap st ! a else [])"

definition elems :: "app \<Rightarrow> slice \<Rightarrow> Connection list" where
  "elems st s = take (len s) (array_at st (arr s))"

definition deref :: "app \<Rightarrow> ptr \<Rightarrow> Connection" where
  "deref st p =
     (if snd p < length (array_at st (fst p)) then array_at st (fst p) ! snd p
      else zero_Connection)"

definition store :: "ptr \<Rightarrow> Connection \<Rightarrow> app \<Rightarrow> app" where
  "store p v st = st\<lparr>heap := (heap st)[fst p := (array_at st (fst p))[snd p := v]]\<rparr>"

definition wf_app :: "app \<Rightarrow> bool" where
  "wf_app st \<longleftrightarrow>
     arr (connections st) < length (heap st)
     \<and> len (connections st) \<le> length (array_at st (arr (connections st)))"

text \<open>
  \<open>append(s, x)\<close>: when the capacity allows, the element is written into the shared
  array at slot \<open>len(s)\<close>; otherwise a new array is allocated, with as many spare slots
  as the runtime chooses, and the elements are copied.
\<close>

definition append_slice :: "nat \<Rightarrow> slice \<Rightarrow> Connection \<Rightarrow> app \<Rightarrow> slice \<times> app" where
  "append_slice spare s x st =
     (if len s < length (array_at st (arr s)) then
        (\<lparr>arr = arr s, len = Suc (len s)\<rparr>, store (arr s, len s) x st)
      else
        (\<lparr>arr = length (heap st), len = Suc (len s)\<rparr>,
         st\<lparr>heap := heap st @ [elems st s @ [x] @ replicate spare zero_Connection]\<rparr>))"

text \<open>
  \<open>append(s[:i], s[i+1:]...)\<close>: the result fits the capacity, so the elements after \<open>i\<close>
  are moved one slot to the left inside the array; the slot that was the last one keeps
  its content.
\<close>

definition remove_at :: "nat \<Rightarrow> slice \<Rightarrow> app \<Rightarrow> slice \<times> app" where
  "remove_at i s st =
     (let a = array_at st (arr s)
      in (\<lparr>arr = arr s, len = len s - 1\<rparr>,
          st\<lparr>heap := (heap st)[arr s :=
                 take i a @ take (len s - Suc i) (drop (Suc i) a) @ drop (len s - 1) a]\<rparr>))"

text \<open>
  The environment of one request: what the remote end answers, what marshalling and
  the file system answer to a save, the spare capacity the runtime gives a new array,
  the identifier \<open>uuid.New()\<close> draws and the two clock readings of \<open>time.Now()\<close>.
\<close>

record env =
  remote :: backend
  marshal_err :: "go_error option"
  write_err :: "go_error option"
  spare_cap :: nat
  new_uuid :: string
  now1 :: nat
  now2 :: nat

fun find_index_by_ID :: "Connection list \<Rightarrow> string \<Rightarrow> nat option" where
  "find_index_by_ID [] connectionID = None"
| "find_index_by_ID (c # cs) connectionID =
     (if ID c = connectionID then Some 0
      else map_option Suc (find_index_by_ID cs connectionID))"

definition GetConnections :: "app \<Rightarrow> slice" where
  \<comment> \<open>returns the slice itself, not a copy of its elements\<close>
  "GetConnections st = connections st"

definition GetConnectionByID :: "string \<Rightarrow> app \<Rightarrow> go_error + ptr" where
  \<comment> \<open>returns \<open>&connections[i]\<close>\<close>
  "GetConnectionByID connectionID st =
     (case find_index_by_ID (elems st (connections st)) connectionID of
        Some i \<Rightarrow> Inr (arr (connections st), i)
      | None \<Rightarrow> Inl (err_not_found connectionID))"

definition SaveConnections :: "env \<Rightarrow> slice \<Rightarrow> app \<Rightarrow> go_error option \<times> app" where
  \<comment> \<open>under the lock: marshal what the slice shows now, write the file, replace the
      package variable\<close>
  "SaveConnections e conns st =
     (case marshal_err e of
        Some err \<Rightarrow> (Some (Errorf_w ''oshibka serializatsii podklyuchenii: '' err []), st)
      | None \<Rightarrow>
         (case write_err e of
            Some err \<Rightarrow> (Some (Errorf_w ''oshibka zapisi faila podklyuchenii: '' err []), st)
          | None \<Rightarrow> (None, st\<lparr>connectionsFile := elems st conns, connections := conns\<rparr>)))"

text \<open>
  \<open>AddConnection\<close> and \<open>DeleteConnection\<close> take the slice with \<open>GetConnections\<close> (read
  lock, released on return), change it with \<open>append\<close> (no lock), and hand the result to
  \<open>SaveConnections\<close> (write lock). These are three steps, and other requests can run
  between them; the definitions below are the three steps run one after the other
  with nothing in between.
\<close>

definition AddConnection :: "env \<Rightarrow> Connection \<Rightarrow> app \<Rightarrow> go_error option \<times> app" where
  "AddConnection e conn st =
     (let conns = GetConnections st;
          (conns', st1) = append_slice (spare_cap e) conns conn st
      in SaveConnections e conns' st1)"

definition DeleteConnection_shift :: "string \<Rightarrow> slice \<Rightarrow> app \<Rightarrow> go_error + slice \<times> app" where
  \<comment> \<open>the loop over \<open>conns\<close> and the \<open>append\<close> at the first match\<close>
  "DeleteConnection_shift connectionID conns st =
     (case find_index_by_ID (elems st conns) connectionID of
        None \<Rightarrow> Inl (err_not_found connectionID)
      | Some i \<Rightarrow> Inr (remove_at i conns st))"

definition DeleteConnection :: "env \<Rightarrow> string \<Rightarrow> app \<Rightarrow> go_error option \<times> app" where
  "DeleteConnection e connectionID st =
     (case DeleteConnection_shift connectionID (GetConnections st) st of
        Inl err \<Rightarrow> (Some err, st)
      | Inr (conns', st1) \<Rightarrow> SaveConnections e conns' st1)"

section \<open>The connection handlers\<close>

text \<open>
  A request as the handlers read it: method, URL path, the value of the query parameter
  \<open>edit\<close>, and the JSON body decoded into a \<open>models.Connection\<close> (\<open>None\<close> when decoding
  fails).
\<close>

record request =
  Method :: string
  Path :: string
  edit_param :: string
  Body :: "Connection option"

text \<open>
  What a handler writes: a status code and a body. \<open>http.Error\<close> writes a text. The JSON
  bodies are a list of descriptors, one descriptor, the map with the keys \<open>connection\<close>,
  \<open>warning\<close> and \<open>error\<close>, the maps with \<open>success\<close> alone or with \<open>username\<close> or \<open>name\<close>, and
  the listing an adapter returned (its content is not modelled); a 204 has no body. A
  descriptor is encoded with all its fields, \<open>password\<close> included.
\<close>

datatype body =
    Text string
  | ConnectionList "Connection list"
  | ConnectionJSON Connection
  | ConnectionWarning Connection string string
  | Success
  | SuccessUsername string
  | SuccessName string
  | Listing
  | NoContent

type_synonym response = "nat \<times> body"

definition TrimPrefix :: "string \<Rightarrow> string \<Rightarrow> string" where
  "TrimPrefix s prefix =
     (if take (length prefix) s = prefix then drop (length prefix) s else s)"

text \<open>
  \<open>GetConnectionsHandler\<close> copies the elements into a slice of its own and works on the
  copy: it blanks the password, then asks the manager whether the identifier is
  connected.
\<close>

fun mask_connections ::
  "backend \<Rightarrow> ConnectionManager \<Rightarrow> world \<Rightarrow> Connection list \<Rightarrow> Connection list outcome"
where
  "mask_connections b m w [] = Returns []"
| "mask_connections b m w (c # cs) =
     (case IsConnected b (ID c) m w of
        Panics \<Rightarrow> Panics
      | Returns live \<Rightarrow>
         (case mask_connections b m w cs of
            Panics \<Rightarrow> Panics
          | Returns rs \<Rightarrow> Returns (c\<lparr>Password := [], Connected := live\<rparr> # rs)))"

definition GetConnectionsHandler :: "env \<Rightarrow> request \<Rightarrow> app \<Rightarrow> response outcome \<times> app" where
  "GetConnectionsHandler e r st =
     (if Method r \<noteq> ''GET'' then (Returns (405, Text ''Metod ne podderzhivaetsya''), st)
      else case mask_connections (remote e) (connManager st) (sessions st)
                  (elems st (GetConnections st)) of
        Panics \<Rightarrow> (Panics, st)
      | Returns result \<Rightarrow> (Returns (200, ConnectionList result), st))"

text \<open>
  \<open>GetConnectionHandler\<close> holds no lock after \<open>GetConnectionByID\<close> has returned the
  pointer \<open>conn\<close>. It then takes four steps, and other requests can run between them:
  the lookup; the assignment \<open>conn.Password = ""\<close> through the pointer; the call of
  \<open>connManager.IsConnected\<close>, which waits for the backend; the assignment of
  \<open>conn.Connected\<close> through the pointer and the encoding of \<open>*conn\<close>, which reads the slot
  as it is then.
\<close>

definition GetConnectionHandler_lookup :: "request \<Rightarrow> app \<Rightarrow> response + ptr" where
  "GetConnectionHandler_lookup r st =
     (if Method r \<noteq> ''GET'' then Inl (405, Text ''Metod ne podderzhivaetsya'')
      else case GetConnectionByID (TrimPrefix (Path r) ''/api/connections/'') st of
        Inl err \<Rightarrow> Inl (404, Text (Error err))
      | Inr conn \<Rightarrow> Inr conn)"

definition GetConnectionHandler_blank :: "request \<Rightarrow> ptr \<Rightarrow> app \<Rightarrow> app" where
  "GetConnectionHandler_blank r conn st =
     (let includePassword = (edit_param r = ''true'')
      in if \<not> includePassword then store conn ((deref st conn)\<lparr>Password := []\<rparr>) st else st)"

definition GetConnectionHandler_respond :: "ptr \<Rightarrow> bool \<Rightarrow> app \<Rightarrow> response \<times> app" where
  "GetConnectionHandler_respond conn live st =
     (let st1 = store conn ((deref st conn)\<lparr>Connected := live\<rparr>) st
      in ((200, ConnectionJSON (deref st1 conn)), st1))"

text \<open>The four steps with no other request in between.\<close>

definition GetConnectionHandler :: "env \<Rightarrow> request \<Rightarrow> app \<Rightarrow> response outcome \<times> app" where
  "GetConnectionHandler e r st =
     (case GetConnectionHandler_lookup r st of
        Inl resp \<Rightarrow> (Returns resp, st)
      | Inr conn \<Rightarrow>
         (let st1 = GetConnectionHandler_blank r conn st
          in case IsConnected (remote e) (TrimPrefix (Path r) ''/api/connections/'')
                    (connManager st1) (sessions st1) of
               Panics \<Rightarrow> (Panics, st1)
             | Returns live \<Rightarrow>
                (case GetConnectionHandler_respond conn live st1 of
                   (resp, st2) \<Rightarrow> (Returns resp, st2))))"

text \<open>
  \<open>CreateConnectionHandler\<close>: the checks and the assignment of the new descriptor's
  fields; the validation (\<open>Connect\<close> and, when it succeeded, \<open>Disconnect\<close>, whose result
  the handler drops); \<open>config.AddConnection\<close>; the response.
\<close>

definition CreateConnectionHandler_decode :: "env \<Rightarrow> request \<Rightarrow> response + Connection" where
  "CreateConnectionHandler_decode e r =
     (if Method r \<noteq> ''POST'' then Inl (405, Text ''Metod ne podderzhivaetsya'')
      else case Body r of
        None \<Rightarrow> Inl (400, Text ''Oshibka parsinga zaprosa'')
      | Some conn0 \<Rightarrow>
         (if Password conn0 = [] then
            Inl (400, Text ''Parol obyazatelen dlya sozdaniya podklyucheniya'')
          else Inr (conn0\<lparr>ID := new_uuid e, Connected := False, CreatedAt := now1 e,
                           UpdatedAt := now2 e\<rparr>)))"

definition CreateConnectionHandler_validate ::
  "env \<Rightarrow> Connection \<Rightarrow> app \<Rightarrow> go_error option outcome \<times> app"
where
  "CreateConnectionHandler_validate e conn st =
     (case Connect (remote e) conn (connManager st) (sessions st) of
        (Panics, m', w') \<Rightarrow> (Panics, st\<lparr>connManager := m', sessions := w'\<rparr>)
      | (Returns (Some err), m', w') \<Rightarrow>
          (Returns (Some err), st\<lparr>connManager := m', sessions := w'\<rparr>)
      | (Returns None, m', w') \<Rightarrow>
          (case Disconnect (remote e) (ID conn) m' w' of
             (ignored, m'', w'') \<Rightarrow> (Returns None, st\<lparr>connManager := m'', sessions := w''\<rparr>)))"

definition CreateConnectionHandler_respond ::
  "Connection \<Rightarrow> go_error option \<Rightarrow> go_error option \<Rightarrow> response"
where
  "CreateConnectionHandler_respond conn connectErr saveErr =
     (case saveErr of
        Some err \<Rightarrow> (500, Text (Error err))
      | None \<Rightarrow>
         (case connectErr of
            Some err \<Rightarrow>
              (201, ConnectionWarning (conn\<lparr>Password := []\<rparr>)
                      (''Ne udalos podklyuchitsya: '' @ Error err) (Error err))
          | None \<Rightarrow> (201, ConnectionJSON (conn\<lparr>Password := []\<rparr>))))"

text \<open>The handler with no other request in between.\<close>

definition CreateConnectionHandler :: "env \<Rightarrow> request \<Rightarrow> app \<Rightarrow> response outcome \<times> app" where
  "CreateConnectionHandler e r st =
     (case CreateConnectionHandler_decode e r of
        Inl resp \<Rightarrow> (Returns resp, st)
      | Inr conn \<Rightarrow>
         (let savedPassword = Password conn
          in case CreateConnectionHandler_validate e conn st of
               (Panics, st1) \<Rightarrow> (Panics, st1)
             | (Returns connectErr, st1) \<Rightarrow>
                (let conn1 = conn\<lparr>Connected := False, Password := savedPassword\<rparr>
                 in case AddConnection e conn1 st1 of
                      (saveErr, st2) \<Rightarrow>
                        (Returns (CreateConnectionHandler_respond conn1 connectErr saveErr),
                         st2))))"

text \<open>
  \<open>DeleteConnectionHandler\<close>: it asks the manager whether the identifier is connected,
  disconnects it if so (dropping the result), and deletes the descriptor.
\<close>

definition DeleteConnectionHandler :: "env \<Rightarrow> request \<Rightarrow> app \<Rightarrow> response outcome \<times> app" where
  "DeleteConnectionHandler e r st =
     (if Method r \<noteq> ''DELETE'' then (Returns (405, Text ''Metod ne podderzhivaetsya''), st)
      else let connectionID = TrimPrefix (Path r) ''/api/connections/'' in
        case IsConnected (remote e) connectionID (connManager st) (sessions st) of
          Panics \<Rightarrow> (Panics, st)
        | Returns live \<Rightarrow>
           (let st1 = (if live then
                         (case Disconnect (remote e) connectionID (connManager st) (sessions st) of
                            (ignored, m', w') \<Rightarrow> st\<lparr>connManager := m', sessions := w'\<rparr>)
                       else st)
            in case DeleteConnection e connectionID st1 of
                 (Some err, st2) \<Rightarrow> (Returns (404, Text (Error err)), st2)
               | (None, st2) \<Rightarrow> (Returns (204, NoContent), st2)))"

text \<open>The passwords a response body carries.\<close>

fun emitted_passwords :: "body \<Rightarrow> string list" where
  "emitted_passwords (ConnectionList cs) = map Password cs"
| "emitted_passwords (ConnectionJSON c) = [Password c]"
| "emitted_passwords (ConnectionWarning c warning err) = [Password c]"
| "emitted_passwords other = []"

text \<open>The status code of a response, if the handler wrote one.\<close>

fun response_status :: "response outcome \<Rightarrow> nat option" where
  "response_status (Returns (code, bd)) = Some code"
| "response_status Panics = None"

section \<open>Histories of manager calls\<close>

text \<open>
  A history of calls of the manager's \<open>Connect\<close> and \<open>Disconnect\<close>. \<open>run\<close> executes it and
  records for each call whether it succeeded, that is, returned a nil error.
  \<open>spec_Live\<close> is the specification's state machine for one identifier, read off the
  recorded history: a successful \<open>Connect\<close> makes the identifier Live, a successful
  \<open>Disconnect\<close> makes it Unregistered, a failed call leaves it as it was.
\<close>

datatype event = EvConnect backend Connection | EvDisconnect backend string

fun target :: "event \<Rightarrow> string" where
  "target (EvConnect b conn) = ID conn"
| "target (EvDisconnect b connectionID) = connectionID"

fun is_connect :: "event \<Rightarrow> bool" where
  "is_connect (EvConnect b conn) = True"
| "is_connect (EvDisconnect b connectionID) = False"

fun step :: "event \<Rightarrow> ConnectionManager \<Rightarrow> world \<Rightarrow> bool \<times> ConnectionManager \<times> world" where
  "step (EvConnect b conn) m w =
     (case Connect b conn m w of (r, m', w') \<Rightarrow> (r = Returns None, m', w'))"
| "step (EvDisconnect b connectionID) m w =
     (case Disconnect b connectionID m w of (r, m', w') \<Rightarrow> (r = None, m', w'))"

fun run :: "event list \<Rightarrow> ConnectionManager \<Rightarrow> world
              \<Rightarrow> (event \<times> bool) list \<times> ConnectionManager \<times> world" where
  "run [] m w = ([], m, w)"
| "run (ev # evs) m w =
     (case step ev m w of
        (ok, m', w') \<Rightarrow> (case run evs m' w' of (tr, m'', w'') \<Rightarrow> ((ev, ok) # tr, m'', w'')))"

fun spec_Live :: "string \<Rightarrow> bool \<Rightarrow> (event \<times> bool) list \<Rightarrow> bool" where
  "spec_Live connectionID s [] = s"
| "spec_Live connectionID s ((ev, ok) # tr) =
     spec_Live connectionID (if ok \<and> target ev = connectionID then is_connect ev else s) tr"

section \<open>Fixtures for the handlers\<close>

definition e_ok :: env where
  "e_ok = \<lparr>remote = b_ok, marshal_err = None, write_err = None, spare_cap = 0,
     new_uuid = ''u-1'', now1 = 100, now2 = 101\<rparr>"

definition e_unreachable :: env where
  "e_unreachable = e_ok\<lparr>remote := b_ok\<lparr>open_err := Some (ErrorString ''no route to host'')\<rparr>\<rparr>"

definition e_down :: env where
  "e_down = e_ok\<lparr>remote := b_ping_fails\<rparr>"

definition e_close_fails :: env where
  "e_close_fails = e_ok\<lparr>remote := b_close_fails\<rparr>"

definition stored_pg :: Connection where
  "stored_pg = pg1\<lparr>Password := ''secret''\<rparr>"

definition stored_ch :: Connection where
  "stored_ch = ch1\<lparr>Password := ''secret2''\<rparr>"

definition app_empty :: app where
  "app_empty = \<lparr>heap = [[]], connections = \<lparr>arr = 0, len = 0\<rparr>, connectionsFile = [],
     connManager = NewConnectionManager, sessions = world0\<rparr>"

definition app_stored :: app where
  "app_stored = \<lparr>heap = [[stored_pg]], connections = \<lparr>arr = 0, len = 1\<rparr>, connectionsFile = [stored_pg],
     connManager = NewConnectionManager, sessions = world0\<rparr>"

definition app_two :: app where
  "app_two = \<lparr>heap = [[stored_pg, stored_ch]], connections = \<lparr>arr = 0, len = 2\<rparr>,
     connectionsFile = [stored_pg, stored_ch], connManager = NewConnectionManager, sessions = world0\<rparr>"

definition app_live :: app where
  \<comment> \<open>\<open>c1\<close> stored and connected\<close>
  "app_live = \<lparr>heap = [[stored_pg]], connections = \<lparr>arr = 0, len = 1\<rparr>, connectionsFile = [stored_pg],
     connManager = m_pg, sessions = w_pg\<rparr>"

definition get_one :: request where
  "get_one = \<lparr>Method = ''GET'', Path = ''/api/connections/c1'', edit_param = [], Body = None\<rparr>"

definition delete_c1 :: request where
  "delete_c1 = \<lparr>Method = ''DELETE'', Path = ''/api/connections/c1'', edit_param = [],
     Body = None\<rparr>"

definition post_pg :: request where
  "post_pg = \<lparr>Method = ''POST'', Path = ''/api/connections'', edit_param = [],
     Body = Some (zero_Connection\<lparr>Name := ''main'', Type := ''PostgreSQL'', Host := ''db'',
       Password := ''secret''\<rparr>)\<rparr>"

definition post_nopw :: request where
  "post_nopw = \<lparr>Method = ''POST'', Path = ''/api/connections'', edit_param = [],
     Body = Some (zero_Connection\<lparr>Name := ''main'', Type := ''PostgreSQL'', Host := ''db''\<rparr>)\<rparr>"

definition post_mongo :: request where
  "post_mongo = \<lparr>Method = ''POST'', Path = ''/api/connections'', edit_param = [],
     Body = Some (zero_Connection\<lparr>Name := ''docs'', Type := ''MongoDB'', Host := ''mg'',
       Password := ''secret''\<rparr>)\<rparr>"

definition new_pg :: Connection where
  "new_pg = zero_Connection\<lparr>ID := ''u-1'', Name := ''main'', Type := ''PostgreSQL'', Host := ''db'',
     Password := ''secret'', CreatedAt := 100, UpdatedAt := 101\<rparr>"

definition new_mongo :: Connection where
  "new_mongo = zero_Connection\<lparr>ID := ''u-1'', Name := ''docs'', Type := ''MongoDB'', Host := ''mg'',
     Password := ''secret'', CreatedAt := 100, UpdatedAt := 101\<rparr>"

text \<open>
  A plain read of \<open>c1\<close> that is overtaken by a delete of \<open>c1\<close>: the state after the read's
  lookup and blanking, then after the whole delete request.
\<close>

definition app_two_blanked :: app where
  "app_two_blanked = GetConnectionHandler_blank get_one (0, 0) app_two"

definition app_two_deleted :: app where
  "app_two_deleted = snd (DeleteConnectionHandler e_ok delete_c1 app_two_blanked)"

text \<open>
  A Zookeeper ensemble that cannot be reached: \<open>zk.Connect\<close> returns a connection
  object and no error, and the connection never reaches a connected state.
\<close>

definition e_zk_unreachable :: env where
  "e_zk_unreachable = e_ok\<lparr>remote := b_ok\<lparr>lib_connected := False\<rparr>\<rparr>"

definition post_zk :: request where
  "post_zk = \<lparr>Method = ''POST'', Path = ''/api/connections'', edit_param = [],
     Body = Some (zero_Connection\<lparr>Name := ''zk'', Type := ''Zookeeper'', Host := ''zk'',
       Password := ''secret''\<rparr>)\<rparr>"

definition new_zk :: Connection where
  "new_zk = zero_Connection\<lparr>ID := ''u-1'', Name := ''zk'', Type := ''Zookeeper'', Host := ''zk'',
     Password := ''secret'', CreatedAt := 100, UpdatedAt := 101\<rparr>"

text \<open>A second descriptor for a registration that runs at the same time as another.\<close>

definition new_mongo2 :: Connection where
  "new_mongo2 = new_mongo\<lparr>ID := ''u-2''\<rparr>"

section \<open>Adapters: queries\<close>

text \<open>
  \<open>interface{}\<close> values of a result row, a row \<open>map[string]interface{}\<close>, and
  \<open>models.QueryResponse\<close> (the field \<open>Error\<close> is \<open>ErrorField\<close> here).
\<close>

datatype go_value = VNil | VBool bool | VInt int | VString string | VTime nat

record QueryResponse =
  Columns :: "string list"
  Rows :: "(string \<rightharpoonup> go_value) list"
  RowCount :: int
  ExecutionTime :: int
  ErrorField :: string

definition QueryResponse_Error :: "string \<Rightarrow> QueryResponse" where
  \<comment> \<open>\<open>&models.QueryResponse{Error: msg}\<close>: every other field has its zero value\<close>
  "QueryResponse_Error msg =
     \<lparr>Columns = [], Rows = [], RowCount = 0, ExecutionTime = 0, ErrorField = msg\<rparr>"

text \<open>
  What the backend answers to one query: an error, or the column descriptions (name and
  database type name) and, for each \<open>rows.Next()\<close>, what reading that row yields (an
  error, or its values). The three durations are the nanoseconds the process spends
  inside the library's \<open>Query\<close> call, fetching rows from the backend inside the loop,
  and building the row maps inside the loop; \<open>start_ns\<close> is the reading of
  \<open>time.Now()\<close>. \<open>format_rfc3339\<close> is \<open>t.Format(time.RFC3339)\<close>.
\<close>

record result_set =
  columns :: "(string \<times> string) list"
  fetches :: "(go_error + go_value list) list"

record query_backend =
  run_query :: "string \<Rightarrow> go_error + result_set"
  start_ns :: nat
  query_ns :: nat
  fetch_ns :: nat
  normalize_ns :: nat
  format_rfc3339 :: "nat \<Rightarrow> string"

definition Milliseconds :: "nat \<Rightarrow> int" where
  \<comment> \<open>\<open>time.Duration.Milliseconds()\<close> of a non-negative duration in nanoseconds\<close>
  "Milliseconds ns = int (ns div 1000000)"

definition Since :: "query_backend \<Rightarrow> nat" where
  \<comment> \<open>\<open>time.Since(startTime)\<close>, read after the row loop: the clock then shows the start
      plus everything the call did in between\<close>
  "Since q = (start_ns q + query_ns q + fetch_ns q + normalize_ns q) - start_ns q"

text \<open>PostgreSQL: \<open>row[col] = values[i]\<close> for every column index below \<open>len(values)\<close>.\<close>

fun pg_row :: "string list \<Rightarrow> go_value list \<Rightarrow> (string \<rightharpoonup> go_value) \<Rightarrow> (string \<rightharpoonup> go_value)" where
  "pg_row [] vs row = row"
| "pg_row (col # cols) [] row = row"
| "pg_row (col # cols) (v # vs) row = pg_row cols vs (row(col \<mapsto> v))"

fun pg_rows :: "string list \<Rightarrow> (go_error + go_value list) list \<Rightarrow> (string \<rightharpoonup> go_value) list" where
  "pg_rows cols [] = []"
| "pg_rows cols (Inl err # fs) = pg_rows cols fs"
| "pg_rows cols (Inr values # fs) = pg_row cols values Map.empty # pg_rows cols fs"

definition PostgreSQLDriver_ExecuteQuery ::
  "query_backend \<Rightarrow> string \<Rightarrow> PostgreSQLDriver \<Rightarrow> go_error + QueryResponse"
where
  "PostgreSQLDriver_ExecuteQuery q query d =
     (if pool d = None then Inl err_not_established
      else case run_query q query of
        Inl err \<Rightarrow> Inr (QueryResponse_Error (Error err))
      | Inr rows \<Rightarrow>
         (let cols = map fst (columns rows);
              rowsData = pg_rows cols (fetches rows);
              executionTime = Milliseconds (Since q)
          in Inr \<lparr>Columns = cols, Rows = rowsData, RowCount = int (length rowsData),
                   ExecutionTime = executionTime, ErrorField = []\<rparr>))"

text \<open>
  ClickHouse: \<open>values\<close> has one slot per column, nil until \<open>Scan\<close> fills it; a
  \<open>time.Time\<close> in a \<open>DateTime\<close> or \<open>Date\<close> column is formatted. \<open>rows.Columns()\<close> and
  \<open>rows.ColumnTypes()\<close> have the same length, so they are one list of pairs.
\<close>

fun ch_row ::
  "(nat \<Rightarrow> string) \<Rightarrow> (string \<times> string) list \<Rightarrow> go_value list \<Rightarrow> (string \<rightharpoonup> go_value)
     \<Rightarrow> (string \<rightharpoonup> go_value)"
where
  "ch_row fmt [] vs row = row"
| "ch_row fmt ((col, ty) # cols) vs row =
     (let val = (case vs of [] \<Rightarrow> VNil | v # rest \<Rightarrow> v);
          val' = (if ty = ''DateTime'' \<or> ty = ''Date''
                  then (case val of VTime t \<Rightarrow> VString (fmt t) | other \<Rightarrow> other)
                  else val)
      in ch_row fmt cols (tl vs) (row(col \<mapsto> val')))"

fun ch_rows ::
  "(nat \<Rightarrow> string) \<Rightarrow> (string \<times> string) list \<Rightarrow> (go_error + go_value list) list
     \<Rightarrow> (string \<rightharpoonup> go_value) list"
where
  "ch_rows fmt cols [] = []"
| "ch_rows fmt cols (Inl err # fs) = ch_rows fmt cols fs"
| "ch_rows fmt cols (Inr values # fs) = ch_row fmt cols values Map.empty # ch_rows fmt cols fs"

definition ClickHouseDriver_ExecuteQuery ::
  "query_backend \<Rightarrow> string \<Rightarrow> ClickHouseDriver \<Rightarrow> go_error + QueryResponse"
where
  "ClickHouseDriver_ExecuteQuery q query d =
     (if ch_conn d = None then Inl err_not_established
      else case run_query q query of
        Inl err \<Rightarrow> Inr (QueryResponse_Error (Error err))
      | Inr rows \<Rightarrow>
         (let rowsData = ch_rows (format_rfc3339 q) (columns rows) (fetches rows);
              executionTime = Milliseconds (Since q)
          in Inr \<lparr>Columns = map fst (columns rows), Rows = rowsData,
                   RowCount = int (length rowsData), ExecutionTime = executionTime,
                   ErrorField = []\<rparr>))"

definition AerospikeDriver_ExecuteQuery :: "string \<Rightarrow> AerospikeDriver \<Rightarrow> go_error + QueryResponse" where
  "AerospikeDriver_ExecuteQuery query d =
     (if as_client d = None then Inl err_not_established
      else Inr (QueryResponse_Error
        ''Aerospike ne podderzhivaet SQL-podobnye zaprosy napryamuyu. Ispolzuite AQL ili klientskie operatsii''))"

section \<open>Adapters: database, table and user operations\<close>

text \<open>
  The twelve remaining methods of the interface, as calls. Of the arguments, the
  options map and the column list are left out; of the results, only the error. Every
  method of the PostgreSQL and ClickHouse adapters starts with the check of the session
  handle and then does its work against the backend; that remainder (argument checks,
  statement text, backend calls) is the parameter \<open>rest\<close>: what it returns, or that it
  panics. The Aerospike and Meilisearch methods are as written, case by case.
\<close>

datatype crud_call =
    CreateDatabase string
  | ListDatabases
  | UpdateDatabase string string
  | DeleteDatabase string
  | CreateTable string
  | ListTables
  | DeleteTable string
  | UpdateTable string string
  | CreateUser string string string "string list"
  | ListUsers
  | UpdateUser string string "string list"
  | DeleteUser string

definition PostgreSQLDriver_crud ::
  "(crud_call \<Rightarrow> go_error option outcome) \<Rightarrow> crud_call \<Rightarrow> PostgreSQLDriver \<Rightarrow> go_error option outcome"
where
  "PostgreSQLDriver_crud rest c d =
     (if pool d = None then Returns (Some err_not_established) else rest c)"

definition ClickHouseDriver_crud ::
  "(crud_call \<Rightarrow> go_error option outcome) \<Rightarrow> crud_call \<Rightarrow> ClickHouseDriver \<Rightarrow> go_error option outcome"
where
  "ClickHouseDriver_crud rest c d =
     (if ch_conn d = None then Returns (Some err_not_established) else rest c)"

definition aerospike_no_tables :: go_error where
  "aerospike_no_tables = ErrorString
     ''Aerospike ne ispolzuet tablitsy v traditsionnom smysle. Ispolzuite sets vnutri namespace''"

fun AerospikeDriver_crud ::
  "(crud_call \<Rightarrow> go_error option outcome) \<Rightarrow> crud_call \<Rightarrow> AerospikeDriver \<Rightarrow> go_error option outcome"
where
  "AerospikeDriver_crud rest (CreateDatabase name) d = Returns (Some (ErrorString
     ''namespace v Aerospike sozdaetsya cherez konfiguratsionnyi fail aerospike.conf''))"
| "AerospikeDriver_crud rest ListDatabases d =
     (if as_client d = None then Returns (Some err_not_established) else rest ListDatabases)"
| "AerospikeDriver_crud rest (UpdateDatabase oldName newName) d = Returns (Some (ErrorString
     ''pereimenovanie namespace v Aerospike trebuet izmeneniya konfiguratsionnogo faila aerospike.conf i perezapuska klastera''))"
| "AerospikeDriver_crud rest (DeleteDatabase name) d = Returns (Some (ErrorString
     ''udalenie namespace v Aerospike trebuet izmeneniya konfiguratsionnogo faila aerospike.conf i perezapuska klastera''))"
| "AerospikeDriver_crud rest (CreateTable name) d = Returns (Some aerospike_no_tables)"
| "AerospikeDriver_crud rest ListTables d = Returns (Some aerospike_no_tables)"
| "AerospikeDriver_crud rest (DeleteTable name) d = Returns (Some aerospike_no_tables)"
| "AerospikeDriver_crud rest (UpdateTable oldName newName) d = Returns (Some aerospike_no_tables)"
| "AerospikeDriver_crud rest (CreateUser username password database permissions) d =
     Returns (Some (ErrorString
       ''sozdanie polzovatelei v Aerospike trebuet Enterprise Edition i nastroiki cherez aerospike.conf''))"
| "AerospikeDriver_crud rest ListUsers d =
     (if as_client d = None then Returns (Some err_not_established)
      else if Username (as_conn d) = [] \<or> Password (as_conn d) = [] then Returns (Some (ErrorString
        ''upravlenie polzovatelyami v Aerospike trebuet Enterprise Edition i autentifikatsii administratora. Pozhaluista, ispolzuite Enterprise Edition s nastroennym XDR i Security''))
      else Returns (Some (ErrorString
        ''upravlenie polzovatelyami v Aerospike dostupno tolko v Enterprise Edition cherez administrativnye komandy. Ispolzuite asadm ili nastroite cherez aerospike.conf'')))"
| "AerospikeDriver_crud rest (UpdateUser username password permissions) d =
     (if as_client d = None then Returns (Some err_not_established)
      else Returns (Some (ErrorString
        (''obnovlenie polzovatelei v Aerospike dostupno tolko v Enterprise Edition. Ispolzuite komandu ''
         @ [CHR 0x27] @ ''asadm -e '' @ [CHR 0x22] @ ''admin update user '' @ username
         @ [CHR 0x22, CHR 0x27] @ '' ili nastroite cherez aerospike.conf''))))"
| "AerospikeDriver_crud rest (DeleteUser username) d =
     (if as_client d = None then Returns (Some err_not_established)
      else Returns (Some (ErrorString
        (''udalenie polzovatelei v Aerospike dostupno tolko v Enterprise Edition. Ispolzuite komandu ''
         @ [CHR 0x27] @ ''asadm -e '' @ [CHR 0x22] @ ''admin drop user '' @ username
         @ [CHR 0x22, CHR 0x27] @ '' ili nastroite cherez aerospike.conf''))))"

definition meilisearch_no_users :: go_error where
  "meilisearch_no_users =
     ErrorString ''Meilisearch ne podderzhivaet upravlenie polzovatelyami cherez API''"

definition MeilisearchDriver_guarded ::
  "(crud_call \<Rightarrow> go_error option outcome) \<Rightarrow> crud_call \<Rightarrow> HTTPDriver \<Rightarrow> go_error option outcome"
where
  \<comment> \<open>the methods that check \<open>d.baseURL\<close> and then talk to the server\<close>
  "MeilisearchDriver_guarded rest c d =
     (if baseURL d = [] then Returns (Some err_not_established) else rest c)"

fun MeilisearchDriver_crud ::
  "(crud_call \<Rightarrow> go_error option outcome) \<Rightarrow> crud_call \<Rightarrow> HTTPDriver \<Rightarrow> go_error option outcome"
where
  "MeilisearchDriver_crud rest (CreateTable name) d = Returns (Some (ErrorString
     ''Meilisearch ne podderzhivaet sozdanie tablits napryamuyu. Ispolzuite sozdanie indeksa''))"
| "MeilisearchDriver_crud rest (DeleteTable name) d =
     MeilisearchDriver_guarded rest (DeleteDatabase name) d"
| "MeilisearchDriver_crud rest (UpdateTable oldName newName) d = Returns (Some (ErrorString
     ''Meilisearch ne podderzhivaet pereimenovanie indeksov napryamuyu''))"
| "MeilisearchDriver_crud rest (CreateUser username password database permissions) d =
     Returns (Some meilisearch_no_users)"
| "MeilisearchDriver_crud rest ListUsers d = Returns (Some meilisearch_no_users)"
| "MeilisearchDriver_crud rest (UpdateUser username password permissions) d =
     Returns (Some meilisearch_no_users)"
| "MeilisearchDriver_crud rest (DeleteUser username) d = Returns (Some meilisearch_no_users)"
| "MeilisearchDriver_crud rest c d = MeilisearchDriver_guarded rest c d"

text \<open>
  The interface call on a registered adapter. \<open>other\<close> stands for the methods of the
  adapters whose operations are not modelled here.
\<close>

fun driver_crud ::
  "(crud_call \<Rightarrow> go_error option outcome) \<Rightarrow> (driver \<Rightarrow> crud_call \<Rightarrow> go_error option outcome)
     \<Rightarrow> crud_call \<Rightarrow> driver \<Rightarrow> go_error option outcome"
where
  "driver_crud rest other c (DPostgreSQL d) = PostgreSQLDriver_crud rest c d"
| "driver_crud rest other c (DSupabase d) = PostgreSQLDriver_crud rest c d"
| "driver_crud rest other c (DCockroachDB d) = PostgreSQLDriver_crud rest c d"
| "driver_crud rest other c (DClickHouse d) = ClickHouseDriver_crud rest c d"
| "driver_crud rest other c (DAerospike d) = AerospikeDriver_crud rest c d"
| "driver_crud rest other c (DHTTP d) =
     (if hkind d = Meilisearch then MeilisearchDriver_crud rest c d else other (DHTTP d) c)"
| "driver_crud rest other c d = other d c"

text \<open>
  The handlers of the table and user operations, given what they read from the request:
  the method, and either the decoded JSON body (\<open>None\<close> when decoding fails) or the query
  parameters. Of \<open>models.CreateTableRequest\<close> and \<open>models.UpdateTableRequest\<close> the column
  list is left out, as in the calls.
\<close>

datatype CreateUserRequest =
  CreateUserRequest (req_ConnectionID: string) (req_Username: string) (req_Password: string)
    (req_Database: string) (req_Permissions: "string list")

datatype UpdateUserRequest =
  UpdateUserRequest (upd_ConnectionID: string) (upd_Username: string) (upd_Password: string)
    (upd_Permissions: "string list")

datatype CreateTableRequest =
  CreateTableRequest (tbl_ConnectionID: string) (tbl_Name: string)

datatype UpdateTableRequest =
  UpdateTableRequest (utb_ConnectionID: string) (utb_OldName: string) (utb_NewName: string)

text \<open>
  What all eight handlers do once the request is read: look the adapter up, call it,
  and answer. The source repeats these lines in every handler.
\<close>

definition call_driver ::
  "(crud_call \<Rightarrow> go_error option outcome) \<Rightarrow> (driver \<Rightarrow> crud_call \<Rightarrow> go_error option outcome)
     \<Rightarrow> string \<Rightarrow> crud_call \<Rightarrow> body \<Rightarrow> ConnectionManager \<Rightarrow> response outcome"
where
  "call_driver rest other connectionID c ok m =
     (case GetDriver connectionID m of
        Inl err \<Rightarrow> Returns (404, Text (Error err))
      | Inr driver \<Rightarrow>
         (case driver_crud rest other c driver of
            Panics \<Rightarrow> Panics
          | Returns (Some err) \<Rightarrow> Returns (500, Text (Error err))
          | Returns None \<Rightarrow> Returns (200, ok)))"

definition CreateUserHandler ::
  "(crud_call \<Rightarrow> go_error option outcome) \<Rightarrow> (driver \<Rightarrow> crud_call \<Rightarrow> go_error option outcome)
     \<Rightarrow> string \<Rightarrow> CreateUserRequest option \<Rightarrow> ConnectionManager \<Rightarrow> response outcome"
where
  "CreateUserHandler rest other method decoded m =
     (if method \<noteq> ''POST'' then Returns (405, Text ''Metod ne podderzhivaetsya'')
      else case decoded of
        None \<Rightarrow> Returns (400, Text ''Oshibka parsinga zaprosa'')
      | Some req \<Rightarrow>
          call_driver rest other (req_ConnectionID req)
            (CreateUser (req_Username req) (req_Password req) (req_Database req)
               (req_Permissions req))
            (SuccessUsername (req_Username req)) m)"

definition ListUsersHandler ::
  "(crud_call \<Rightarrow> go_error option outcome) \<Rightarrow> (driver \<Rightarrow> crud_call \<Rightarrow> go_error option outcome)
     \<Rightarrow> string \<Rightarrow> string \<Rightarrow> ConnectionManager \<Rightarrow> response outcome"
where
  "ListUsersHandler rest other method connectionID m =
     (if method \<noteq> ''GET'' then Returns (405, Text ''Metod ne podderzhivaetsya'')
      else if connectionID = [] then Returns (400, Text ''connectionId ne ukazan'')
      else call_driver rest other connectionID ListUsers Listing m)"

definition UpdateUserHandler ::
  "(crud_call \<Rightarrow> go_error option outcome) \<Rightarrow> (driver \<Rightarrow> crud_call \<Rightarrow> go_error option outcome)
     \<Rightarrow> string \<Rightarrow> UpdateUserRequest option \<Rightarrow> ConnectionManager \<Rightarrow> response outcome"
where
  "UpdateUserHandler rest other method decoded m =
     (if method \<noteq> ''PUT'' then Returns (405, Text ''Metod ne podderzhivaetsya'')
      else case decoded of
        None \<Rightarrow> Returns (400, Text ''Oshibka parsinga zaprosa'')
      | Some req \<Rightarrow>
          call_driver rest other (upd_ConnectionID req)
            (UpdateUser (upd_Username req) (upd_Password req) (upd_Permissions req))
            (SuccessUsername (upd_Username req)) m)"

definition DeleteUserHandler ::
  "(crud_call \<Rightarrow> go_error option outcome) \<Rightarrow> (driver \<Rightarrow> crud_call \<Rightarrow> go_error option outcome)
     \<Rightarrow> string \<Rightarrow> string \<Rightarrow> string \<Rightarrow> ConnectionManager \<Rightarrow> response outcome"
where
  "DeleteUserHandler rest other method connectionID username m =
     (if method \<noteq> ''DELETE'' then Returns (405, Text ''Metod ne podderzhivaetsya'')
      else if connectionID = [] \<or> username = [] then
        Returns (400, Text ''connectionId i username obyazatelny'')
      else call_driver rest other connectionID (DeleteUser username) Success m)"

definition CreateTableHandler ::
  "(crud_call \<Rightarrow> go_error option outcome) \<Rightarrow> (driver \<Rightarrow> crud_call \<Rightarrow> go_error option outcome)
     \<Rightarrow> string \<Rightarrow> CreateTableRequest option \<Rightarrow> ConnectionManager \<Rightarrow> response outcome"
where
  "CreateTableHandler rest other method decoded m =
     (if method \<noteq> ''POST'' then Returns (405, Text ''Metod ne podderzhivaetsya'')
      else case decoded of
        None \<Rightarrow> Returns (400, Text ''Oshibka parsinga zaprosa'')
      | Some req \<Rightarrow>
          call_driver rest other (tbl_ConnectionID req) (CreateTable (tbl_Name req))
            (SuccessName (tbl_Name req)) m)"

definition ListTablesHandler ::
  "(crud_call \<Rightarrow> go_error option outcome) \<Rightarrow> (driver \<Rightarrow> crud_call \<Rightarrow> go_error option outcome)
     \<Rightarrow> string \<Rightarrow> string \<Rightarrow> ConnectionManager \<Rightarrow> response outcome"
where
  "ListTablesHandler rest other method connectionID m =
     (if method \<noteq> ''GET'' then Returns (405, Text ''Metod ne podderzhivaetsya'')
      else if connectionID = [] then Returns (400, Text ''connectionId ne ukazan'')
      else call_driver rest other connectionID ListTables Listing m)"

definition DeleteTableHandler ::
  "(crud_call \<Rightarrow> go_error option outcome) \<Rightarrow> (driver \<Rightarrow> crud_call \<Rightarrow> go_error option outcome)
     \<Rightarrow> string \<Rightarrow> string \<Rightarrow> string \<Rightarrow> ConnectionManager \<Rightarrow> response outcome"
where
  "DeleteTableHandler rest other method connectionID name m =
     (if method \<noteq> ''DELETE'' then Returns (405, Text ''Metod ne podderzhivaetsya'')
      else if connectionID = [] \<or> name = [] then
        Returns (400, Text ''connectionId i name obyazatelny'')
      else call_driver rest other connectionID (DeleteTable name) Success m)"

definition UpdateTableHandler ::
  "(crud_call \<Rightarrow> go_error option outcome) \<Rightarrow> (driver \<Rightarrow> crud_call \<Rightarrow> go_error option outcome)
     \<Rightarrow> string \<Rightarrow> UpdateTableRequest option \<Rightarrow> ConnectionManager \<Rightarrow> response outcome"
where
  "UpdateTableHandler rest other method decoded m =
     (if method \<noteq> ''PUT'' then Returns (405, Text ''Metod ne podderzhivaetsya'')
      else case decoded of
        None \<Rightarrow> Returns (400, Text ''Oshibka parsinga zaprosa'')
      | Some req \<Rightarrow>
          call_driver rest other (utb_ConnectionID req)
            (UpdateTable (utb_OldName req) (utb_NewName req))
            (SuccessName (utb_NewName req)) m)"

text \<open>Fixtures for the operations.\<close>

definition q_slow_normalize :: query_backend where
  "q_slow_normalize =
     \<lparr>run_query = (\<lambda>s. Inr \<lparr>columns = [(''id'', ''Int64'')], fetches = [Inr [VInt 1]]\<rparr>),
      start_ns = 5, query_ns = 0, fetch_ns = 0, normalize_ns = 2000000,
      format_rfc3339 = (\<lambda>t. [])\<rparr>"

definition rest_ok :: "crud_call \<Rightarrow> go_error option outcome" where
  "rest_ok c = Returns None"

definition rest_refused :: "crud_call \<Rightarrow> go_error option outcome" where
  \<comment> \<open>PostgreSQL's \<open>CreateUser\<close> when the server refuses the statement\<close>
  "rest_refused c = Returns (Some (Errorf_w ''oshibka sozdaniya polzovatelya: ''
     (ErrorString ''permission denied to create role'') []))"

definition other_ok :: "driver \<Rightarrow> crud_call \<Rightarrow> go_error option outcome" where
  "other_ok d c = Returns None"

definition ms1 :: Connection where
  "ms1 = zero_Connection\<lparr>ID := ''c3'', Type := ''Meilisearch'', Host := ''ms'', Port := ''7700''\<rparr>"

definition m_two :: ConnectionManager where
  "m_two = \<lparr>drivers = [''c1'' \<mapsto> DPostgreSQL (PostgreSQLDriver (Some 0) pg1),
     ''c3'' \<mapsto> DHTTP (HTTPDriver Meilisearch True ''http://ms:7700'' ms1 [])]\<rparr>"

definition as1 :: Connection where
  "as1 = zero_Connection\<lparr>ID := ''c4'', Type := ''Aerospike'', Host := ''as'', Port := ''3000''\<rparr>"

definition m_as :: ConnectionManager where
  "m_as = \<lparr>drivers = [''c4'' \<mapsto> DAerospike (AerospikeDriver (Some 0) as1)]\<rparr>"

definition new_user :: "string \<Rightarrow> CreateUserRequest" where
  "new_user connectionID = CreateUserRequest connectionID ''bob'' ''pw'' [] []"

text \<open>The Aerospike methods that check \<open>d.client\<close> before anything else.\<close>

fun aerospike_checks_client :: "crud_call \<Rightarrow> bool" where
  "aerospike_checks_client ListDatabases = True"
| "aerospike_checks_client ListUsers = True"
| "aerospike_checks_client (UpdateUser username password permissions) = True"
| "aerospike_checks_client (DeleteUser username) = True"
| "aerospike_checks_client c = False"
section \<open>Verified properties of the connection manager\<close>

lemmas native_Connect_defs =
  PostgreSQLDriver_Connect_def ClickHouseDriver_Connect_def AerospikeDriver_Connect_def
  MongoDBDriver_Connect_def RedisDriver_Connect_def CassandraDriver_Connect_def
  ZookeeperDriver_Connect_def

lemmas fixture_defs =
  b_ok_def b_close_fails_def b_ping_fails_def pg1_def ch1_def zero_Connection_def
  NewConnectionManager_def world0_def

lemma Connect_pg1:
  "Connect b_ok pg1 NewConnectionManager world0 =
     (Returns None, \<lparr>drivers = [''c1'' \<mapsto> DPostgreSQL (PostgreSQLDriver (Some 0) pg1)]\<rparr>,
      \<lparr>opened = 1, close_log = []\<rparr>)"
  by (simp add: Connect_def CreateDriver_def fixture_defs lift3_def PostgreSQLDriver_Connect_def
        NewPostgreSQLDriver_def open_session_def)

lemma Connect_ch1:
  "Connect b_ok ch1 NewConnectionManager world0 =
     (Returns None, \<lparr>drivers = [''c2'' \<mapsto> DClickHouse (ClickHouseDriver (Some 0) ch1)]\<rparr>,
      \<lparr>opened = 1, close_log = []\<rparr>)"
  by (simp add: Connect_def CreateDriver_def fixture_defs lift3_def ClickHouseDriver_Connect_def
        NewClickHouseDriver_def open_session_def)

lemma m_pg_eq: "m_pg = \<lparr>drivers = [''c1'' \<mapsto> DPostgreSQL (PostgreSQLDriver (Some 0) pg1)]\<rparr>"
  and w_pg_eq: "w_pg = \<lparr>opened = 1, close_log = []\<rparr>"
  by (simp_all add: m_pg_def w_pg_def Connect_pg1)

lemma m_ch_eq: "m_ch = \<lparr>drivers = [''c2'' \<mapsto> DClickHouse (ClickHouseDriver (Some 0) ch1)]\<rparr>"
  and w_ch_eq: "w_ch = \<lparr>opened = 1, close_log = []\<rparr>"
  by (simp_all add: m_ch_def w_ch_def Connect_ch1)

lemma driver_Connect_ok_close_log:
  "driver_Connect b conn d w = (Returns None, d', w') \<Longrightarrow> close_log w' = close_log w"
  by (cases d)
     (auto simp: lift3_def native_Connect_defs open_session_def close_session_def Let_def
           split: option.splits if_splits prod.splits)

lemma driver_Connect_ok_handle:
  "driver_Connect b conn d w = (Returns None, d', w') \<Longrightarrow>
     driver_handle d' = Some h \<Longrightarrow> h = opened w"
  by (cases d)
     (auto simp: lift3_def native_Connect_defs open_session_def close_session_def Let_def
           split: option.splits if_splits prod.splits)

text \<open>
  Whatever the adapter, a successful \<open>Connect\<close> calls no close on any session: the
  close log is what it was before, and the entry it stores holds the session opened by
  this call.
\<close>

lemma Connect_ok_closes_nothing:
  assumes "Connect b conn m w = (Returns None, m', w')"
  shows "close_log w' = close_log w
       \<and> (\<exists>d'. drivers m' = (drivers m)(ID conn \<mapsto> d')
               \<and> (\<forall>h. driver_handle d' = Some h \<longrightarrow> h = opened w))"
proof -
  from assms obtain d0 d' where
    c: "CreateDriver (Type conn) = Some d0" and
    dc: "driver_Connect b conn d0 w = (Returns None, d', w')" and
    m': "m' = m\<lparr>drivers := (drivers m)(ID conn \<mapsto> d')\<rparr>"
    by (auto simp: Connect_def split: option.splits prod.splits outcome.splits)
  have log: "close_log w' = close_log w"
    using dc by (rule driver_Connect_ok_close_log)
  have fresh: "\<forall>h. driver_handle d' = Some h \<longrightarrow> h = opened w"
    using dc by (auto dest: driver_Connect_ok_handle)
  show ?thesis
    using log fresh m' by auto
qed

text \<open>
  C1 at its failing input: \<open>Connect\<close> of \<open>c1\<close> on a new manager, then \<open>Connect\<close> of \<open>c1\<close>
  again. Both calls succeed. After the first the registry holds the session with
  handle 0; after the second it holds handle 1, and the close of handle 0 has been
  called zero times, not once: the first session is dropped open.
\<close>

theorem Connect_twice_leaks_first_session:
  "fst (Connect b_ok pg1 NewConnectionManager world0) = Returns None
   \<and> map_option driver_handle (drivers m_pg ''c1'') = Some (Some 0)
   \<and> fst (Connect b_ok pg1 m_pg w_pg) = Returns None
   \<and> close_calls (snd (snd (Connect b_ok pg1 m_pg w_pg))) 0 = 0
   \<and> close_log (snd (snd (Connect b_ok pg1 m_pg w_pg))) = []
   \<and> opened (snd (snd (Connect b_ok pg1 m_pg w_pg))) = 2
   \<and> map_option driver_handle (drivers (fst (snd (Connect b_ok pg1 m_pg w_pg))) ''c1'')
       = Some (Some 1)"
  unfolding m_pg_eq w_pg_eq
  by (simp add: Connect_def CreateDriver_def fixture_defs lift3_def PostgreSQLDriver_Connect_def
        NewPostgreSQLDriver_def open_session_def close_calls_def)

subsection \<open>Disconnect\<close>

lemma Disconnect_absent:
  "drivers m connectionID = None \<Longrightarrow>
     Disconnect b connectionID m w = (Some (err_not_found connectionID), m, w)"
  by (simp add: Disconnect_def)

lemma Disconnect_times_absent:
  "drivers m connectionID = None \<Longrightarrow>
     Disconnect_times bs connectionID m w =
       (replicate (length bs) (Some (err_not_found connectionID)), m, w)"
  by (induction bs) (simp_all add: Disconnect_absent)

lemma Disconnect_ok_removes:
  "Disconnect b connectionID m w = (None, m1, w1) \<Longrightarrow> drivers m1 connectionID = None"
  by (auto simp: Disconnect_def split: option.splits prod.splits)

text \<open>
  C2 (as the code has it). If the first \<open>Disconnect(id)\<close> did not fail inside the adapter
  (it returned nil, or \<open>id\<close> was not registered), then calling it any number of further
  times ends in the registry and world the first call left, and each further call
  returns the not-found error.
\<close>

theorem Disconnect_repeat_same_end_state:
  assumes first: "Disconnect b connectionID m w = (r, m1, w1)"
      and clean: "r = None \<or> drivers m connectionID = None"
  shows "Disconnect_times (b # bs) connectionID m w =
           (r # replicate (length bs) (Some (err_not_found connectionID)), m1, w1)"
proof -
  have gone: "drivers m1 connectionID = None"
  proof (cases "r = None")
    case True
    with first show ?thesis by (auto dest: Disconnect_ok_removes)
  next
    case False
    with clean have "drivers m connectionID = None" by simp
    with first show ?thesis by (simp add: Disconnect_absent)
  qed
  show ?thesis
    using first Disconnect_times_absent [OF gone, of bs w1] by simp
qed

theorem Disconnect_repeat_same_end_state_witness:
  "Disconnect_times [b_ok, b_ok, b_ok] ''c1'' m_pg w_pg =
     ([None, Some (err_not_found ''c1''), Some (err_not_found ''c1'')],
      \<lparr>drivers = Map.empty\<rparr>, \<lparr>opened = 1, close_log = [0]\<rparr>)"
proof -
  have d: "Disconnect b_ok ''c1'' m_pg w_pg =
             (None, \<lparr>drivers = Map.empty\<rparr>, \<lparr>opened = 1, close_log = [0]\<rparr>)"
    unfolding m_pg_eq w_pg_eq
    by (simp add: Disconnect_def PostgreSQLDriver_Disconnect_def close_session_def)
  show ?thesis
    using Disconnect_repeat_same_end_state [OF d, of "[b_ok, b_ok]"] by simp
qed

text \<open>
  C2 as stated fails: \<open>Disconnect\<close> of an identifier that is not registered returns the
  not-found error, on a fresh manager and on the second of two calls alike.
\<close>

theorem Disconnect_unregistered_counterexample:
  "fst (Disconnect b_ok ''c1'' NewConnectionManager world0) = Some (err_not_found ''c1'')
   \<and> fst (Disconnect b_ok ''c1'' NewConnectionManager world0) \<noteq> None
   \<and> fst (Disconnect_times [b_ok, b_ok] ''c1'' m_pg w_pg) = [None, Some (err_not_found ''c1'')]"
  unfolding m_pg_eq w_pg_eq
  by (simp add: Disconnect_def PostgreSQLDriver_Disconnect_def close_session_def
        NewConnectionManager_def)

text \<open>
  C3 (as the code has it). For a registered identifier the manager's \<open>Disconnect\<close> follows
  the adapter's result: when the adapter's \<open>Disconnect\<close> returns nil the entry is
  deleted and \<open>GetDriver\<close> then fails with not-found; when it returns an error the manager
  returns that error wrapped and keeps the entry, so \<open>GetDriver\<close> still succeeds.
\<close>

theorem Disconnect_entry_follows_adapter_result:
  assumes reg: "drivers m connectionID = Some d"
      and adapter: "driver_Disconnect b d w = (e, d', w')"
  shows "Disconnect b connectionID m w =
           (case e of
              None \<Rightarrow> (None, m\<lparr>drivers := (drivers m)(connectionID := None)\<rparr>, w')
            | Some err \<Rightarrow>
                (Some (Errorf_w ''oshibka otklyucheniya: '' err []),
                 m\<lparr>drivers := (drivers m)(connectionID \<mapsto> d')\<rparr>, w'))
       \<and> GetDriver connectionID (fst (snd (Disconnect b connectionID m w))) =
           (case e of None \<Rightarrow> Inl (err_not_found connectionID) | Some err \<Rightarrow> Inr d')"
  using reg adapter by (cases e) (simp_all add: Disconnect_def GetDriver_def)

lemma Disconnect_ch_close_fails:
  "Disconnect b_close_fails ''c2'' m_ch w_ch =
     (Some (WrapError ''oshibka otklyucheniya: close failed'' (ErrorString ''close failed'')),
      \<lparr>drivers = [''c2'' \<mapsto> DClickHouse (ClickHouseDriver (Some 0) ch1)]\<rparr>,
      \<lparr>opened = 1, close_log = [0]\<rparr>)"
  unfolding m_ch_eq w_ch_eq
  by (simp add: Disconnect_def ClickHouseDriver_Disconnect_def close_session_def
        b_close_fails_def b_ok_def Errorf_w_def)

theorem Disconnect_entry_follows_adapter_result_witness:
  "GetDriver ''c2'' (fst (snd (Disconnect b_close_fails ''c2'' m_ch w_ch))) =
     Inr (DClickHouse (ClickHouseDriver (Some 0) ch1))"
proof -
  have reg: "drivers m_ch ''c2'' = Some (DClickHouse (ClickHouseDriver (Some 0) ch1))"
    unfolding m_ch_eq by simp
  have adapter: "driver_Disconnect b_close_fails (DClickHouse (ClickHouseDriver (Some 0) ch1)) w_ch
                   = (Some (ErrorString ''close failed''),
                      DClickHouse (ClickHouseDriver (Some 0) ch1), close_session 0 w_ch)"
    by (simp add: ClickHouseDriver_Disconnect_def b_close_fails_def b_ok_def)
  show ?thesis
    using Disconnect_entry_follows_adapter_result [OF reg adapter, THEN conjunct2] by simp
qed

text \<open>
  C3 as stated fails: a registered ClickHouse adapter whose \<open>conn.Close()\<close> returns an
  error. The manager returns the wrapped error and \<open>GetDriver\<close> still finds the entry.
\<close>

theorem Disconnect_failure_counterexample:
  "drivers m_ch ''c2'' = Some (DClickHouse (ClickHouseDriver (Some 0) ch1))
   \<and> fst (driver_Disconnect b_close_fails (DClickHouse (ClickHouseDriver (Some 0) ch1)) w_ch)
       = Some (ErrorString ''close failed'')
   \<and> fst (Disconnect b_close_fails ''c2'' m_ch w_ch)
       = Some (WrapError ''oshibka otklyucheniya: close failed'' (ErrorString ''close failed''))
   \<and> GetDriver ''c2'' (fst (snd (Disconnect b_close_fails ''c2'' m_ch w_ch)))
       = Inr (DClickHouse (ClickHouseDriver (Some 0) ch1))
   \<and> GetDriver ''c2'' (fst (snd (Disconnect b_close_fails ''c2'' m_ch w_ch)))
       \<noteq> Inl (err_not_found ''c2'')"
  unfolding Disconnect_ch_close_fails
  by (simp add: GetDriver_def m_ch_eq w_ch_eq ClickHouseDriver_Disconnect_def
        b_close_fails_def b_ok_def)

subsection \<open>Failed Connect\<close>

text \<open>A \<open>Connect\<close> that does not return nil leaves the registry as it was.\<close>

lemma Connect_error_registry_unchanged:
  "Connect b conn m w = (r, m', w') \<Longrightarrow> r \<noteq> Returns None \<Longrightarrow> m' = m"
  by (auto simp: Connect_def split: option.splits prod.splits outcome.splits)

text \<open>The PostgreSQL adapter closes the pool it opened when the probe fails.\<close>

lemma PostgreSQLDriver_Connect_probe_failure_closes:
  "Password conn \<noteq> [] \<Longrightarrow> parse_err b = None \<Longrightarrow> open_err b = None \<Longrightarrow> ping_err b = Some e \<Longrightarrow>
     PostgreSQLDriver_Connect b conn d w = (r, d', w') \<Longrightarrow>
     r \<noteq> None \<and> d' = d \<and> opened w' = Suc (opened w) \<and> close_log w' = close_log w @ [opened w]"
  by (auto simp: PostgreSQLDriver_Connect_def open_session_def close_session_def Let_def)

text \<open>
  C4 at its failing input: a ClickHouse descriptor whose session opens and whose probe
  fails. \<open>Connect\<close> reports the failure and the registry is unchanged, but the session
  just opened (handle 0) is never closed: the close log stays empty.
\<close>

theorem Connect_ClickHouse_probe_failure_leaks:
  "Connect b_ping_fails ch1 NewConnectionManager world0 =
     (Returns (Some (WrapError ''oshibka podklyucheniya: oshibka ping ClickHouse: timeout''
        (WrapError ''oshibka ping ClickHouse: timeout'' (ErrorString ''timeout'')))),
      NewConnectionManager, \<lparr>opened = 1, close_log = []\<rparr>)"
  by (simp add: Connect_def CreateDriver_def fixture_defs lift3_def ClickHouseDriver_Connect_def
        NewClickHouseDriver_def open_session_def Errorf_w_def)
section \<open>Verified properties of the connection handlers\<close>

subsection \<open>Slices and pointers\<close>

lemma array_at_store:
  "array_at (store p v st) a = (if a = fst p then (array_at st a)[snd p := v] else array_at st a)"
  by (auto simp: array_at_def store_def)

lemma deref_store_same:
  "deref (store p v st) p = (if snd p < length (array_at st (fst p)) then v else zero_Connection)"
  by (simp add: deref_def array_at_store)

lemma store_fields:
  "connections (store p v st) = connections st"
  "connectionsFile (store p v st) = connectionsFile st"
  "connManager (store p v st) = connManager st"
  "sessions (store p v st) = sessions st"
  by (simp_all add: store_def)

lemma elems_manager_update:
  "elems (st\<lparr>connManager := m, sessions := w\<rparr>) s = elems st s"
  by (simp add: elems_def array_at_def)

lemma wf_app_manager_update:
  "wf_app (st\<lparr>connManager := m, sessions := w\<rparr>) = wf_app st"
  by (simp add: wf_app_def array_at_def)

lemma append_slice_elems:
  assumes "len s \<le> length (array_at st (arr s))"
      and "append_slice spare s x st = (s', st')"
  shows "elems st' s' = elems st s @ [x]"
proof (cases "len s < length (array_at st (arr s))")
  case True
  with assms(2) have s': "s' = \<lparr>arr = arr s, len = Suc (len s)\<rparr>"
    and st': "st' = store (arr s, len s) x st"
    by (simp_all add: append_slice_def)
  show ?thesis
    using True by (simp add: s' st' elems_def array_at_store take_Suc_conv_app_nth)
next
  case False
  with assms(1) have full: "len s = length (array_at st (arr s))" by simp
  from False assms(2) have s': "s' = \<lparr>arr = length (heap st), len = Suc (len s)\<rparr>"
    and st': "st' = st\<lparr>heap := heap st @ [elems st s @ [x] @ replicate spare zero_Connection]\<rparr>"
    by (simp_all add: append_slice_def)
  have l: "length (elems st s) = len s"
    using full by (simp add: elems_def)
  have "elems st' s' = take (Suc (len s)) (elems st s @ [x] @ replicate spare zero_Connection)"
    by (simp add: s' st' elems_def array_at_def del: append.simps replicate.simps)
  also have "\<dots> = elems st s @ [x]"
    using l by simp
  finally show ?thesis .
qed

lemma append_slice_fields:
  "append_slice spare s x st = (s', st') \<Longrightarrow>
     connManager st' = connManager st \<and> sessions st' = sessions st"
  by (auto simp: append_slice_def store_def split: if_splits)

lemma AddConnection_ok:
  assumes wf: "wf_app st" and save: "marshal_err e = None" "write_err e = None"
  shows "fst (AddConnection e conn st) = None
       \<and> elems (snd (AddConnection e conn st)) (connections (snd (AddConnection e conn st)))
           = elems st (connections st) @ [conn]
       \<and> connectionsFile (snd (AddConnection e conn st)) = elems st (connections st) @ [conn]
       \<and> connManager (snd (AddConnection e conn st)) = connManager st
       \<and> sessions (snd (AddConnection e conn st)) = sessions st"
proof -
  obtain s' st1 where a: "append_slice (spare_cap e) (connections st) conn st = (s', st1)"
    by (cases "append_slice (spare_cap e) (connections st) conn st") auto
  have el: "elems st1 s' = elems st (connections st) @ [conn]"
    using append_slice_elems [OF _ a] wf by (simp add: wf_app_def)
  have add: "AddConnection e conn st = (None, st1\<lparr>connectionsFile := elems st1 s', connections := s'\<rparr>)"
    using a save by (simp add: AddConnection_def GetConnections_def SaveConnections_def)
  have el2: "elems (st1\<lparr>connectionsFile := elems st1 s', connections := s'\<rparr>) s' = elems st1 s'"
    by (simp add: elems_def array_at_def)
  show ?thesis
    using append_slice_fields [OF a] el el2 by (simp add: add)
qed

subsection \<open>Read responses\<close>

lemma mask_connections_blank:
  "mask_connections b m w cs = Returns rs \<Longrightarrow> \<forall>c \<in> set rs. Password c = []"
proof (induction cs arbitrary: rs)
  case Nil
  then show ?case by simp
next
  case (Cons c cs)
  then show ?case
    by (auto split: outcome.splits)
qed

text \<open>
  With one request at a time the read handlers hide the password: every response of
  the list handler carries only empty passwords, and a response of the
  single-connection handler carries an empty password unless the query parameter
  \<open>edit\<close> is \<open>true\<close>.
\<close>

lemma read_responses_hide_password_one_at_a_time:
  "(GetConnectionsHandler e r st = (Returns (code, bd), st')
      \<longrightarrow> (\<forall>p \<in> set (emitted_passwords bd). p = []))
   \<and> (GetConnectionHandler e r st = (Returns (code, bd), st') \<and> edit_param r \<noteq> ''true''
      \<longrightarrow> (\<forall>p \<in> set (emitted_passwords bd). p = []))"
proof (intro conjI impI)
  assume "GetConnectionsHandler e r st = (Returns (code, bd), st')"
  then show "\<forall>p \<in> set (emitted_passwords bd). p = []"
    by (auto simp: GetConnectionsHandler_def split: if_splits outcome.splits
             dest: mask_connections_blank)
next
  assume a: "GetConnectionHandler e r st = (Returns (code, bd), st') \<and> edit_param r \<noteq> ''true''"
  then show "\<forall>p \<in> set (emitted_passwords bd). p = []"
    by (auto simp: GetConnectionHandler_def GetConnectionHandler_lookup_def
                   GetConnectionHandler_blank_def GetConnectionHandler_respond_def Let_def
                   deref_store_same array_at_store zero_Connection_def
             split: if_splits outcome.splits sum.splits)
qed

text \<open>
  The single-connection handler writes through the pointer into the shared array, and
  so changes the stored descriptor: after a plain read the password of the descriptor in
  memory is empty.
\<close>

lemma GetConnectionHandler_blanks_stored_password:
  "elems (snd (GetConnectionHandler e_ok get_one app_stored))
     (connections (snd (GetConnectionHandler e_ok get_one app_stored)))
     = [stored_pg\<lparr>Password := [], Connected := False\<rparr>]"
  by (simp add: GetConnectionHandler_def GetConnectionHandler_lookup_def
        GetConnectionHandler_blank_def GetConnectionHandler_respond_def GetConnectionByID_def
        get_one_def app_stored_def TrimPrefix_def stored_pg_def pg1_def IsConnected_def
        NewConnectionManager_def e_ok_def Let_def elems_def array_at_def store_def deref_def)

lemma app_two_blanked_eq:
  "app_two_blanked = app_two\<lparr>heap := [[stored_pg\<lparr>Password := []\<rparr>, stored_ch]]\<rparr>"
  by (simp add: app_two_blanked_def GetConnectionHandler_blank_def get_one_def app_two_def
        store_def deref_def array_at_def Let_def)

lemma DeleteConnectionHandler_app_two_blanked:
  "DeleteConnectionHandler e_ok delete_c1 app_two_blanked =
     (Returns (204, NoContent),
      \<lparr>heap = [[stored_ch, stored_ch]], connections = \<lparr>arr = 0, len = 1\<rparr>,
       connectionsFile = [stored_ch], connManager = NewConnectionManager, sessions = world0\<rparr>)"
proof -
  have t: "TrimPrefix (Path delete_c1) ''/api/connections/'' = ''c1''"
    and m: "Method delete_c1 = ''DELETE''"
    by (simp_all add: delete_c1_def TrimPrefix_def)
  have p: "IsConnected (remote e_ok) ''c1'' (connManager app_two_blanked) (sessions app_two_blanked)
             = Returns False"
    by (simp add: app_two_blanked_eq app_two_def IsConnected_def NewConnectionManager_def)
  have d: "DeleteConnection e_ok ''c1'' app_two_blanked =
     (None,
      \<lparr>heap = [[stored_ch, stored_ch]], connections = \<lparr>arr = 0, len = 1\<rparr>,
       connectionsFile = [stored_ch], connManager = NewConnectionManager, sessions = world0\<rparr>)"
    by (simp add: app_two_blanked_eq app_two_def DeleteConnection_def DeleteConnection_shift_def
          GetConnections_def SaveConnections_def remove_at_def elems_def array_at_def
          stored_pg_def stored_ch_def pg1_def ch1_def e_ok_def Let_def)
  show ?thesis
    by (simp add: DeleteConnectionHandler_def t m p d)
qed

lemma app_two_deleted_eq:
  "app_two_deleted =
     \<lparr>heap = [[stored_ch, stored_ch]], connections = \<lparr>arr = 0, len = 1\<rparr>,
      connectionsFile = [stored_ch], connManager = NewConnectionManager, sessions = world0\<rparr>"
  by (simp add: app_two_deleted_def DeleteConnectionHandler_app_two_blanked)

text \<open>
  C8 at its failing input. Two descriptors are stored, \<open>c1\<close> with password \<open>secret\<close> and
  \<open>c2\<close> with password \<open>secret2\<close>. A plain read of \<open>c1\<close> (no \<open>edit\<close> parameter) looks \<open>c1\<close>
  up, gets the pointer to slot 0 and blanks the password there. While it waits in
  \<open>IsConnected\<close>, a delete request for \<open>c1\<close> runs to its end: \<open>DeleteConnection\<close> moves \<open>c2\<close>
  into slot 0 of the same array. The read then encodes what its pointer shows: the
  descriptor \<open>c2\<close> with its password \<open>secret2\<close>.
\<close>

theorem GetConnectionHandler_overtaken_by_delete_emits_password:
  "elems app_two (connections app_two) = [stored_pg, stored_ch]
   \<and> edit_param get_one \<noteq> ''true''
   \<and> GetConnectionHandler_lookup get_one app_two = Inr (0, 0)
   \<and> app_two_blanked = GetConnectionHandler_blank get_one (0, 0) app_two
   \<and> deref app_two_blanked (0, 0) = stored_pg\<lparr>Password := []\<rparr>
   \<and> DeleteConnectionHandler e_ok delete_c1 app_two_blanked
       = (Returns (204, NoContent), app_two_deleted)
   \<and> IsConnected (remote e_ok) (TrimPrefix (Path get_one) ''/api/connections/'')
        (connManager app_two_deleted) (sessions app_two_deleted) = Returns False
   \<and> fst (GetConnectionHandler_respond (0, 0) False app_two_deleted)
       = (200, ConnectionJSON (stored_ch\<lparr>Connected := False\<rparr>))
   \<and> emitted_passwords (snd (fst (GetConnectionHandler_respond (0, 0) False app_two_deleted)))
       = [''secret2'']"
proof -
  have 1: "elems app_two (connections app_two) = [stored_pg, stored_ch]"
    by (simp add: app_two_def elems_def array_at_def)
  have 2: "edit_param get_one \<noteq> ''true''"
    by (simp add: get_one_def)
  have 3: "GetConnectionHandler_lookup get_one app_two = Inr (0, 0)"
    by (simp add: GetConnectionHandler_lookup_def GetConnectionByID_def 1 get_one_def
          TrimPrefix_def stored_pg_def pg1_def)
      (simp add: app_two_def)
  have 4: "app_two_blanked = GetConnectionHandler_blank get_one (0, 0) app_two"
    by (simp add: app_two_blanked_def)
  have 5: "deref app_two_blanked (0, 0) = stored_pg\<lparr>Password := []\<rparr>"
    by (simp add: app_two_blanked_eq deref_def array_at_def)
  have 6: "DeleteConnectionHandler e_ok delete_c1 app_two_blanked
             = (Returns (204, NoContent), app_two_deleted)"
    by (simp add: DeleteConnectionHandler_app_two_blanked app_two_deleted_eq)
  have 7: "IsConnected (remote e_ok) (TrimPrefix (Path get_one) ''/api/connections/'')
             (connManager app_two_deleted) (sessions app_two_deleted) = Returns False"
    by (simp add: app_two_deleted_eq IsConnected_def NewConnectionManager_def)
  have 8: "fst (GetConnectionHandler_respond (0, 0) False app_two_deleted)
             = (200, ConnectionJSON (stored_ch\<lparr>Connected := False\<rparr>))"
    by (simp add: GetConnectionHandler_respond_def app_two_deleted_eq store_def deref_def
          array_at_def Let_def)
  have 9: "emitted_passwords (snd (fst (GetConnectionHandler_respond (0, 0) False app_two_deleted)))
             = [''secret2'']"
    by (simp add: 8 stored_ch_def)
  from 1 2 3 4 5 6 7 8 9 show ?thesis by blast
qed

subsection \<open>Registering a connection\<close>

lemma Disconnect_ok_unregisters:
  "Disconnect b connectionID m w = (None, m', w') \<Longrightarrow> drivers m' connectionID = None"
  by (auto simp: Disconnect_def split: option.splits prod.splits)

lemma CreateConnectionHandler_decode_ok:
  "Method r = ''POST'' \<Longrightarrow> Body r = Some conn0 \<Longrightarrow> Password conn0 \<noteq> [] \<Longrightarrow>
     CreateConnectionHandler_decode e r =
       Inr (conn0\<lparr>ID := new_uuid e, Connected := False, CreatedAt := now1 e, UpdatedAt := now2 e\<rparr>)"
  by (simp add: CreateConnectionHandler_decode_def)

text \<open>
  C9 (as the code has it). A register request (POST, decodable body) handled with no
  other request in between, on a well-formed state, when the save succeeds. Without a
  password the handler answers 400 and does nothing else: no connect, nothing stored.
  With a password it calls the manager's \<open>Connect\<close> on the new descriptor. When \<open>Connect\<close>
  returns an error, the registry is as before and the response is 201 with the
  descriptor, a warning and the error text. When \<open>Connect\<close> returns nil, the handler calls
  the manager's \<open>Disconnect\<close> on the new identifier and answers 201 with the descriptor;
  if that \<open>Disconnect\<close> returned nil, the new identifier is not in the registry. In both
  cases the descriptor is appended to the stored ones, in memory and in the file, with
  \<open>connected = false\<close> and its password, and the response carries an empty password.
\<close>

theorem CreateConnectionHandler_validates_then_persists:
  assumes post: "Method r = ''POST''"
      and body: "Body r = Some conn0"
      and wf: "wf_app st"
      and save: "marshal_err e = None" "write_err e = None"
      and conn: "conn = conn0\<lparr>ID := new_uuid e, Connected := False, CreatedAt := now1 e,
                              UpdatedAt := now2 e\<rparr>"
      and handler: "CreateConnectionHandler e r st = (resp, st')"
  shows "(Password conn0 = [] \<longrightarrow>
            resp = Returns (400, Text ''Parol obyazatelen dlya sozdaniya podklyucheniya'')
            \<and> st' = st)
       \<and> (Password conn0 \<noteq> [] \<longrightarrow>
            (case Connect (remote e) conn (connManager st) (sessions st) of
               (Panics, m', w') \<Rightarrow> resp = Panics
             | (Returns (Some err), m', w') \<Rightarrow>
                 resp = Returns (201, ConnectionWarning (conn\<lparr>Password := []\<rparr>)
                                  (''Ne udalos podklyuchitsya: '' @ Error err) (Error err))
                 \<and> connManager st' = connManager st \<and> sessions st' = w'
                 \<and> elems st' (connections st') = elems st (connections st) @ [conn]
                 \<and> connectionsFile st' = elems st (connections st) @ [conn]
             | (Returns None, m', w') \<Rightarrow>
                 resp = Returns (201, ConnectionJSON (conn\<lparr>Password := []\<rparr>))
                 \<and> connManager st' = fst (snd (Disconnect (remote e) (ID conn) m' w'))
                 \<and> sessions st' = snd (snd (Disconnect (remote e) (ID conn) m' w'))
                 \<and> (fst (Disconnect (remote e) (ID conn) m' w') = None
                      \<longrightarrow> GetDriver (ID conn) (connManager st') = Inl (err_not_found (ID conn)))
                 \<and> elems st' (connections st') = elems st (connections st) @ [conn]
                 \<and> connectionsFile st' = elems st (connections st) @ [conn])
            \<and> Connected conn = False \<and> Password conn = Password conn0)"
proof -
  have nopw: "Password conn0 = [] \<longrightarrow>
            resp = Returns (400, Text ''Parol obyazatelen dlya sozdaniya podklyucheniya'')
            \<and> st' = st"
    using post body handler
    by (auto simp: CreateConnectionHandler_def CreateConnectionHandler_decode_def)
  have stored: "Connected conn = False \<and> Password conn = Password conn0"
    by (simp add: conn)
  have same: "conn\<lparr>Connected := False, Password := Password conn\<rparr> = conn"
    by (simp add: conn)
  obtain cres m' w' where c: "Connect (remote e) conn (connManager st) (sessions st) = (cres, m', w')"
    by (cases "Connect (remote e) conn (connManager st) (sessions st)") auto
  have pw: "case Connect (remote e) conn (connManager st) (sessions st) of
               (Panics, m', w') \<Rightarrow> resp = Panics
             | (Returns (Some err), m', w') \<Rightarrow>
                 resp = Returns (201, ConnectionWarning (conn\<lparr>Password := []\<rparr>)
                                  (''Ne udalos podklyuchitsya: '' @ Error err) (Error err))
                 \<and> connManager st' = connManager st \<and> sessions st' = w'
                 \<and> elems st' (connections st') = elems st (connections st) @ [conn]
                 \<and> connectionsFile st' = elems st (connections st) @ [conn]
             | (Returns None, m', w') \<Rightarrow>
                 resp = Returns (201, ConnectionJSON (conn\<lparr>Password := []\<rparr>))
                 \<and> connManager st' = fst (snd (Disconnect (remote e) (ID conn) m' w'))
                 \<and> sessions st' = snd (snd (Disconnect (remote e) (ID conn) m' w'))
                 \<and> (fst (Disconnect (remote e) (ID conn) m' w') = None
                      \<longrightarrow> GetDriver (ID conn) (connManager st') = Inl (err_not_found (ID conn)))
                 \<and> elems st' (connections st') = elems st (connections st) @ [conn]
                 \<and> connectionsFile st' = elems st (connections st) @ [conn]"
    if nonempty: "Password conn0 \<noteq> []"
  proof (cases cres)
    case Panics
    have dec: "CreateConnectionHandler_decode e r = Inr conn"
      using CreateConnectionHandler_decode_ok [OF post body nonempty] conn by simp
    from Panics c have "CreateConnectionHandler_validate e conn st
                   = (Panics, st\<lparr>connManager := m', sessions := w'\<rparr>)"
      by (simp add: CreateConnectionHandler_validate_def)
    with handler dec have "resp = Panics"
      by (simp add: CreateConnectionHandler_def Let_def)
    with c Panics show ?thesis by simp
  next
    case (Returns res)
    have dec: "CreateConnectionHandler_decode e r = Inr conn"
      using CreateConnectionHandler_decode_ok [OF post body nonempty] conn by simp
    show ?thesis
    proof (cases res)
      case (Some err)
      with c Returns have m': "m' = connManager st"
        by (auto dest: Connect_error_registry_unchanged)
      define st1 where "st1 = st\<lparr>connManager := m', sessions := w'\<rparr>"
      have v: "CreateConnectionHandler_validate e conn st = (Returns (Some err), st1)"
        using c Returns Some by (simp add: CreateConnectionHandler_validate_def st1_def)
      have wf1: "wf_app st1"
        using wf by (simp add: st1_def wf_app_manager_update)
      note add = AddConnection_ok [OF wf1 save, of conn]
      have h: "CreateConnectionHandler e r st =
                 (Returns (CreateConnectionHandler_respond conn (Some err)
                             (fst (AddConnection e conn st1))),
                  snd (AddConnection e conn st1))"
        using dec v same by (simp add: CreateConnectionHandler_def Let_def split: prod.splits)
      have st': "st' = snd (AddConnection e conn st1)"
        and resp: "resp = Returns (CreateConnectionHandler_respond conn (Some err) None)"
        using h handler add by simp_all
      have e1: "elems st1 (connections st1) = elems st (connections st)"
        by (simp add: st1_def elems_def array_at_def)
      have "resp = Returns (201, ConnectionWarning (conn\<lparr>Password := []\<rparr>)
                                  (''Ne udalos podklyuchitsya: '' @ Error err) (Error err))
            \<and> connManager st' = connManager st \<and> sessions st' = w'
            \<and> elems st' (connections st') = elems st (connections st) @ [conn]
            \<and> connectionsFile st' = elems st (connections st) @ [conn]"
        using add e1 m' by (simp add: st' resp CreateConnectionHandler_respond_def st1_def)
      with c Returns Some show ?thesis by simp
    next
      case None
      obtain derr m'' w'' where d: "Disconnect (remote e) (ID conn) m' w' = (derr, m'', w'')"
        by (cases "Disconnect (remote e) (ID conn) m' w'") auto
      define st1 where "st1 = st\<lparr>connManager := m'', sessions := w''\<rparr>"
      have v: "CreateConnectionHandler_validate e conn st = (Returns None, st1)"
        using c Returns None d by (simp add: CreateConnectionHandler_validate_def st1_def)
      have wf1: "wf_app st1"
        using wf by (simp add: st1_def wf_app_manager_update)
      note add = AddConnection_ok [OF wf1 save, of conn]
      have h: "CreateConnectionHandler e r st =
                 (Returns (CreateConnectionHandler_respond conn None
                             (fst (AddConnection e conn st1))),
                  snd (AddConnection e conn st1))"
        using dec v same by (simp add: CreateConnectionHandler_def Let_def split: prod.splits)
      have st': "st' = snd (AddConnection e conn st1)"
        and resp: "resp = Returns (CreateConnectionHandler_respond conn None None)"
        using h handler add by simp_all
      have e1: "elems st1 (connections st1) = elems st (connections st)"
        by (simp add: st1_def elems_def array_at_def)
      have un: "derr = None \<longrightarrow> GetDriver (ID conn) m'' = Inl (err_not_found (ID conn))"
        using Disconnect_ok_unregisters [of "remote e" "ID conn" m' w' m'' w''] d
        by (simp add: GetDriver_def)
      have "resp = Returns (201, ConnectionJSON (conn\<lparr>Password := []\<rparr>))
            \<and> connManager st' = m'' \<and> sessions st' = w''
            \<and> (derr = None \<longrightarrow> GetDriver (ID conn) m'' = Inl (err_not_found (ID conn)))
            \<and> elems st' (connections st') = elems st (connections st) @ [conn]
            \<and> connectionsFile st' = elems st (connections st) @ [conn]"
        using add e1 un by (simp add: st' resp CreateConnectionHandler_respond_def st1_def)
      with c Returns None d show ?thesis by simp
    qed
  qed
  from nopw pw stored show ?thesis by simp
qed

lemma string_of_nat_6: "string_of_nat 6 = ''6''"
  by (simp add: string_of_nat.simps digit_char_def)

lemma string_of_nat_Suc6: "string_of_nat (Suc (Suc (Suc (Suc (Suc (Suc 0)))))) = ''6''"
  using string_of_nat_6 by (simp add: eval_nat_numeral)

lemma Connect_new_pg:
  "Connect (remote e_ok) new_pg (connManager app_empty) (sessions app_empty) =
     (Returns None, \<lparr>drivers = [''u-1'' \<mapsto> DPostgreSQL (PostgreSQLDriver (Some 0) new_pg)]\<rparr>,
      \<lparr>opened = 1, close_log = []\<rparr>)"
  by (simp add: Connect_def CreateDriver_def new_pg_def e_ok_def b_ok_def app_empty_def
        zero_Connection_def NewConnectionManager_def world0_def lift3_def
        PostgreSQLDriver_Connect_def NewPostgreSQLDriver_def open_session_def)

lemma Disconnect_new_pg:
  "Disconnect (remote e_ok) ''u-1''
     \<lparr>drivers = [''u-1'' \<mapsto> DPostgreSQL (PostgreSQLDriver (Some 0) new_pg)]\<rparr>
     \<lparr>opened = 1, close_log = []\<rparr> =
     (None, NewConnectionManager, \<lparr>opened = 1, close_log = [0]\<rparr>)"
  by (simp add: Disconnect_def PostgreSQLDriver_Disconnect_def close_session_def
        NewConnectionManager_def)

theorem CreateConnectionHandler_validates_then_persists_witness:
  "fst (CreateConnectionHandler e_ok post_pg app_empty)
     = Returns (201, ConnectionJSON (new_pg\<lparr>Password := []\<rparr>))
   \<and> sessions (snd (CreateConnectionHandler e_ok post_pg app_empty))
       = \<lparr>opened = 1, close_log = [0]\<rparr>
   \<and> GetDriver ''u-1'' (connManager (snd (CreateConnectionHandler e_ok post_pg app_empty)))
       = Inl (err_not_found ''u-1'')
   \<and> elems (snd (CreateConnectionHandler e_ok post_pg app_empty))
        (connections (snd (CreateConnectionHandler e_ok post_pg app_empty))) = [new_pg]
   \<and> connectionsFile (snd (CreateConnectionHandler e_ok post_pg app_empty)) = [new_pg]
   \<and> fst (CreateConnectionHandler e_ok post_nopw app_stored)
       = Returns (400, Text ''Parol obyazatelen dlya sozdaniya podklyucheniya'')
   \<and> snd (CreateConnectionHandler e_ok post_nopw app_stored) = app_stored"
proof -
  have post: "Method post_pg = ''POST''"
    and body: "Body post_pg = Some (zero_Connection\<lparr>Name := ''main'', Type := ''PostgreSQL'',
                  Host := ''db'', Password := ''secret''\<rparr>)"
    by (simp_all add: post_pg_def)
  have pw: "Password (zero_Connection\<lparr>Name := ''main'', Type := ''PostgreSQL'',
                  Host := ''db'', Password := ''secret''\<rparr>) \<noteq> []"
    by simp
  have save: "marshal_err e_ok = None" "write_err e_ok = None"
    by (simp_all add: e_ok_def)
  have wf: "wf_app app_empty"
    by (simp add: wf_app_def app_empty_def array_at_def)
  have conn: "new_pg = (zero_Connection\<lparr>Name := ''main'', Type := ''PostgreSQL'',
                  Host := ''db'', Password := ''secret''\<rparr>)\<lparr>ID := new_uuid e_ok, Connected := False,
                  CreatedAt := now1 e_ok, UpdatedAt := now2 e_ok\<rparr>"
    by (simp add: new_pg_def e_ok_def zero_Connection_def)
  have h: "CreateConnectionHandler e_ok post_pg app_empty =
             (fst (CreateConnectionHandler e_ok post_pg app_empty),
              snd (CreateConnectionHandler e_ok post_pg app_empty))"
    by simp
  have idn: "ID new_pg = ''u-1''"
    by (simp add: new_pg_def)
  have em: "elems app_empty (connections app_empty) = []"
    by (simp add: elems_def app_empty_def array_at_def)
  note t = CreateConnectionHandler_validates_then_persists [OF post body wf save conn h]
  have a: "fst (CreateConnectionHandler e_ok post_pg app_empty)
     = Returns (201, ConnectionJSON (new_pg\<lparr>Password := []\<rparr>))
   \<and> sessions (snd (CreateConnectionHandler e_ok post_pg app_empty))
       = \<lparr>opened = 1, close_log = [0]\<rparr>
   \<and> GetDriver ''u-1'' (connManager (snd (CreateConnectionHandler e_ok post_pg app_empty)))
       = Inl (err_not_found ''u-1'')
   \<and> elems (snd (CreateConnectionHandler e_ok post_pg app_empty))
        (connections (snd (CreateConnectionHandler e_ok post_pg app_empty))) = [new_pg]
   \<and> connectionsFile (snd (CreateConnectionHandler e_ok post_pg app_empty)) = [new_pg]"
    using t [THEN conjunct2, THEN mp, OF pw, THEN conjunct1] Disconnect_new_pg
    unfolding Connect_new_pg
    by (auto simp: idn em)
  have post2: "Method post_nopw = ''POST''"
    and body2: "Body post_nopw = Some (zero_Connection\<lparr>Name := ''main'', Type := ''PostgreSQL'',
                  Host := ''db''\<rparr>)"
    by (simp_all add: post_nopw_def)
  have nopw: "Password (zero_Connection\<lparr>Name := ''main'', Type := ''PostgreSQL'',
                  Host := ''db''\<rparr>) = []"
    by (simp add: zero_Connection_def)
  have wf2: "wf_app app_stored"
    by (simp add: wf_app_def app_stored_def array_at_def)
  have h2: "CreateConnectionHandler e_ok post_nopw app_stored =
             (fst (CreateConnectionHandler e_ok post_nopw app_stored),
              snd (CreateConnectionHandler e_ok post_nopw app_stored))"
    by simp
  have b: "fst (CreateConnectionHandler e_ok post_nopw app_stored)
       = Returns (400, Text ''Parol obyazatelen dlya sozdaniya podklyucheniya'')
   \<and> snd (CreateConnectionHandler e_ok post_nopw app_stored) = app_stored"
    using CreateConnectionHandler_validates_then_persists
            [OF post2 body2 wf2 save refl h2, THEN conjunct1, THEN mp, OF nopw] .
  from a b show ?thesis by blast
qed

text \<open>
  C9 as stated fails: a register request without a password. The handler answers 400
  before any connect; no session is opened and nothing is stored.
\<close>

theorem CreateConnectionHandler_no_password_counterexample:
  "Method post_nopw = ''POST''
   \<and> map_option Type (Body post_nopw) = Some ''PostgreSQL''
   \<and> map_option Password (Body post_nopw) = Some []
   \<and> CreateConnectionHandler e_ok post_nopw app_empty
       = (Returns (400, Text ''Parol obyazatelen dlya sozdaniya podklyucheniya''), app_empty)
   \<and> opened (sessions app_empty) = 0
   \<and> elems app_empty (connections app_empty) = []
   \<and> connectionsFile app_empty = []"
  by (simp add: CreateConnectionHandler_def CreateConnectionHandler_decode_def post_nopw_def
        zero_Connection_def app_empty_def world0_def elems_def array_at_def)

text \<open>The unreachable PostgreSQL host: saved, answered 201 with a warning, nothing registered.\<close>

lemma CreateConnectionHandler_unreachable:
  "CreateConnectionHandler e_unreachable post_pg app_empty =
     (Returns (201, ConnectionWarning (new_pg\<lparr>Password := []\<rparr>)
        ''Ne udalos podklyuchitsya: oshibka podklyucheniya: oshibka podklyucheniya k PostgreSQL: no route to host (host=db, port=5432, polzovatel=, baza=, dlina_parolya=6)''
        ''oshibka podklyucheniya: oshibka podklyucheniya k PostgreSQL: no route to host (host=db, port=5432, polzovatel=, baza=, dlina_parolya=6)''),
      \<lparr>heap = [[], [new_pg]], connections = \<lparr>arr = 1, len = 1\<rparr>, connectionsFile = [new_pg],
       connManager = NewConnectionManager, sessions = world0\<rparr>)"
  by (simp add: CreateConnectionHandler_def CreateConnectionHandler_decode_def
        CreateConnectionHandler_validate_def CreateConnectionHandler_respond_def
        post_pg_def e_unreachable_def e_ok_def b_ok_def
        app_empty_def Connect_def CreateDriver_def zero_Connection_def lift3_def
        PostgreSQLDriver_Connect_def NewPostgreSQLDriver_def Errorf_w_def string_of_nat_Suc6
        AddConnection_def GetConnections_def append_slice_def SaveConnections_def
        elems_def array_at_def new_pg_def Let_def)

text \<open>
  The warning follows the result of \<open>Connect\<close>, not the state of the host. The Zookeeper
  adapter's \<open>Connect\<close> does not probe: for an ensemble that cannot be reached and a
  descriptor without a user name it returns nil, and the handler answers 201 with the
  descriptor and no warning.
\<close>

lemma CreateConnectionHandler_zookeeper_unreachable:
  "fst (CreateConnectionHandler e_zk_unreachable post_zk app_empty)
     = Returns (201, ConnectionJSON (new_zk\<lparr>Password := []\<rparr>))"
  by (simp add: CreateConnectionHandler_def CreateConnectionHandler_decode_def
        CreateConnectionHandler_validate_def CreateConnectionHandler_respond_def
        post_zk_def e_zk_unreachable_def e_ok_def b_ok_def
        app_empty_def Connect_def Disconnect_def CreateDriver_def zero_Connection_def lift3_def
        ZookeeperDriver_Connect_def ZookeeperDriver_Disconnect_def NewZookeeperDriver_def
        open_session_def close_session_def
        AddConnection_def GetConnections_def append_slice_def SaveConnections_def
        elems_def array_at_def new_zk_def Let_def NewConnectionManager_def world0_def)

text \<open>
  The handler drops the result of \<open>Disconnect\<close>. With a MongoDB adapter whose
  \<open>client.Disconnect\<close> returns an error the manager keeps the entry: the handler answers
  201 with \<open>connected = false\<close> while the new identifier stays registered.
\<close>

lemma CreateConnectionHandler_close_fails_stays_registered:
  "fst (CreateConnectionHandler e_close_fails post_mongo app_empty)
     = Returns (201, ConnectionJSON (new_mongo\<lparr>Password := []\<rparr>))
   \<and> GetDriver ''u-1'' (connManager (snd (CreateConnectionHandler e_close_fails post_mongo app_empty)))
       = Inr (DMongoDB (MongoDBDriver (Some 0) new_mongo))"
  by (simp add: CreateConnectionHandler_def CreateConnectionHandler_decode_def
        CreateConnectionHandler_validate_def CreateConnectionHandler_respond_def
        post_mongo_def e_close_fails_def e_ok_def b_close_fails_def b_ok_def
        app_empty_def Connect_def Disconnect_def GetDriver_def CreateDriver_def
        zero_Connection_def lift3_def
        MongoDBDriver_Connect_def MongoDBDriver_Disconnect_def NewMongoDBDriver_def
        open_session_def close_session_def
        AddConnection_def GetConnections_def append_slice_def SaveConnections_def
        elems_def array_at_def new_mongo_def Let_def NewConnectionManager_def world0_def)

text \<open>
  \<open>AddConnection\<close> holds no lock between taking the slice and saving it. Two
  registrations that both take the slice before either saves both succeed, and the
  descriptor saved first is lost: memory and file hold the second one only.
\<close>

lemma AddConnection_lost_update:
  "(let conns = GetConnections app_empty;
        (connsA, st1) = append_slice (spare_cap e_ok) conns new_pg app_empty;
        (connsB, st2) = append_slice (spare_cap e_ok) conns new_mongo2 st1;
        (errA, st3) = SaveConnections e_ok connsA st2;
        (errB, st4) = SaveConnections e_ok connsB st3
    in (errA, errB, elems st4 (connections st4), connectionsFile st4))
   = (None, None, [new_mongo2], [new_mongo2])"
  by (simp add: GetConnections_def app_empty_def append_slice_def SaveConnections_def e_ok_def
        elems_def array_at_def Let_def)

section \<open>Verified properties of the lookup\<close>

lemma step_registry:
  "step ev m w = (ok, m', w') \<Longrightarrow>
     (connectionID \<in> dom (drivers m')) =
       (if ok \<and> target ev = connectionID then is_connect ev else connectionID \<in> dom (drivers m))"
  by (cases ev)
     (auto simp: Connect_def Disconnect_def
           split: option.splits prod.splits outcome.splits if_splits)

lemma run_registry:
  "run evs m w = (tr, m', w') \<Longrightarrow>
     (connectionID \<in> dom (drivers m')) = spec_Live connectionID (connectionID \<in> dom (drivers m)) tr"
proof (induction evs arbitrary: m w tr)
  case Nil
  then show ?case by simp
next
  case (Cons ev evs)
  obtain ok m1 w1 where s: "step ev m w = (ok, m1, w1)"
    by (cases "step ev m w") auto
  obtain tr1 where r: "run evs m1 w1 = (tr1, m', w')" and tr: "tr = (ev, ok) # tr1"
    using Cons.prems s by (auto split: prod.splits)
  show ?case
    using Cons.IH [OF r] step_registry [OF s, of connectionID] tr by simp
qed

text \<open>
  C5 (as the code has it). After any history of calls of the manager's \<open>Connect\<close> and
  \<open>Disconnect\<close> on a new manager, \<open>GetDriver(id)\<close> succeeds exactly when \<open>id\<close> is in the
  registry, which is exactly when the most recent call on \<open>id\<close> that returned nil was a
  \<open>Connect\<close>; a \<open>Connect\<close> or \<open>Disconnect\<close> that returns an error leaves \<open>id\<close> as it was.
  When \<open>GetDriver(id)\<close> fails, the error is the not-found error for \<open>id\<close>.
\<close>

theorem GetDriver_succeeds_iff_Live:
  assumes "run evs NewConnectionManager world0 = (tr, m, w)"
  shows "((\<exists>d. GetDriver connectionID m = Inr d) \<longleftrightarrow> spec_Live connectionID False tr)
       \<and> ((\<exists>d. GetDriver connectionID m = Inr d) \<longleftrightarrow> connectionID \<in> dom (drivers m))
       \<and> (\<forall>err. GetDriver connectionID m = Inl err \<longrightarrow> err = err_not_found connectionID)"
proof -
  have reg: "(connectionID \<in> dom (drivers m)) = spec_Live connectionID False tr"
    using run_registry [OF assms, of connectionID] by (simp add: NewConnectionManager_def)
  have get: "(\<exists>d. GetDriver connectionID m = Inr d) \<longleftrightarrow> connectionID \<in> dom (drivers m)"
    by (auto simp: GetDriver_def split: option.splits)
  have err: "\<forall>err. GetDriver connectionID m = Inl err \<longrightarrow> err = err_not_found connectionID"
    by (auto simp: GetDriver_def split: option.splits)
  show ?thesis using reg get err by simp
qed

lemma Disconnect_pg_ok:
  "Disconnect b_ok ''c1'' m_pg w_pg =
     (None, \<lparr>drivers = Map.empty\<rparr>, \<lparr>opened = 1, close_log = [0]\<rparr>)"
  unfolding m_pg_eq w_pg_eq
  by (simp add: Disconnect_def PostgreSQLDriver_Disconnect_def close_session_def)

theorem GetDriver_succeeds_iff_Live_witness:
  "GetDriver ''c1'' \<lparr>drivers = Map.empty\<rparr> = Inl (err_not_found ''c1'')
   \<and> \<not> spec_Live ''c1'' False [(EvConnect b_ok pg1, True), (EvDisconnect b_ok ''c1'', True)]
   \<and> (\<exists>d. GetDriver ''c1'' m_pg = Inr d)
   \<and> spec_Live ''c1'' False [(EvConnect b_ok pg1, True)]"
proof -
  have r1: "run [EvConnect b_ok pg1] NewConnectionManager world0 =
              ([(EvConnect b_ok pg1, True)], m_pg, w_pg)"
    by (simp add: Connect_pg1 m_pg_eq w_pg_eq)
  have r2: "run [EvConnect b_ok pg1, EvDisconnect b_ok ''c1''] NewConnectionManager world0 =
              ([(EvConnect b_ok pg1, True), (EvDisconnect b_ok ''c1'', True)],
               \<lparr>drivers = Map.empty\<rparr>, \<lparr>opened = 1, close_log = [0]\<rparr>)"
    using Disconnect_pg_ok by (simp add: Connect_pg1 m_pg_eq w_pg_eq)
  have live1: "spec_Live ''c1'' False [(EvConnect b_ok pg1, True)]"
    by (simp add: pg1_def)
  have live2: "\<not> spec_Live ''c1'' False [(EvConnect b_ok pg1, True), (EvDisconnect b_ok ''c1'', True)]"
    by (simp add: pg1_def)
  have g1: "\<exists>d. GetDriver ''c1'' m_pg = Inr d"
    using GetDriver_succeeds_iff_Live [OF r1, of "''c1''", THEN conjunct1] live1 by blast
  have "\<not> (\<exists>d. GetDriver ''c1'' \<lparr>drivers = Map.empty\<rparr> = Inr d)"
    using GetDriver_succeeds_iff_Live [OF r2, of "''c1''", THEN conjunct1] live2 by blast
  then obtain err where e: "GetDriver ''c1'' \<lparr>drivers = Map.empty\<rparr> = Inl err"
    by (cases "GetDriver ''c1'' \<lparr>drivers = Map.empty\<rparr>") auto
  have "err = err_not_found ''c1''"
    using GetDriver_succeeds_iff_Live [OF r2, of "''c1''", THEN conjunct2, THEN conjunct2] e
    by blast
  with e have g2: "GetDriver ''c1'' \<lparr>drivers = Map.empty\<rparr> = Inl (err_not_found ''c1'')"
    by simp
  show ?thesis using g1 g2 live1 live2 by blast
qed

text \<open>
  The delete handler asks \<open>IsConnected\<close>, which probes the backend, before it calls
  \<open>Disconnect\<close>. With \<open>c1\<close> stored and connected and the backend not answering the probe,
  the handler does not call \<open>Disconnect\<close>: it deletes the descriptor and answers 204,
  and the adapter stays in the registry.
\<close>

lemma IsConnected_down: "IsConnected (remote e_down) ''c1'' m_pg w_pg = Returns False"
  by (simp add: IsConnected_def m_pg_eq PostgreSQLDriver_IsConnected_def e_down_def e_ok_def
        b_ping_fails_def b_ok_def)

lemma DeleteConnectionHandler_down:
  "DeleteConnectionHandler e_down delete_c1 app_live =
     (Returns (204, NoContent),
      \<lparr>heap = [[stored_pg]], connections = \<lparr>arr = 0, len = 0\<rparr>, connectionsFile = [],
       connManager = m_pg, sessions = w_pg\<rparr>)"
proof -
  have t: "TrimPrefix (Path delete_c1) ''/api/connections/'' = ''c1''"
    and m: "Method delete_c1 = ''DELETE''"
    by (simp_all add: delete_c1_def TrimPrefix_def)
  have p: "IsConnected (remote e_down) ''c1'' (connManager app_live) (sessions app_live)
             = Returns False"
    using IsConnected_down by (simp add: app_live_def)
  have d: "DeleteConnection e_down ''c1'' app_live =
             (None, \<lparr>heap = [[stored_pg]], connections = \<lparr>arr = 0, len = 0\<rparr>, connectionsFile = [],
                     connManager = m_pg, sessions = w_pg\<rparr>)"
    by (simp add: DeleteConnection_def DeleteConnection_shift_def GetConnections_def
          SaveConnections_def remove_at_def elems_def array_at_def app_live_def stored_pg_def
          pg1_def e_down_def e_ok_def Let_def)
  show ?thesis
    by (simp add: DeleteConnectionHandler_def t m p d)
qed

text \<open>
  C5 as stated fails. A registered ClickHouse adapter whose \<open>conn.Close()\<close> returns an
  error: \<open>Connect(c2)\<close> was followed by \<open>Disconnect(c2)\<close>, and \<open>GetDriver(c2)\<close> still
  succeeds. And \<open>c1\<close> connected, then deleted while the backend does not answer the probe:
  the delete request succeeds with 204, the descriptor is gone, and \<open>GetDriver(c1)\<close>
  still succeeds.
\<close>

theorem GetDriver_after_Disconnect_or_Delete_counterexample:
  "fst (Connect b_ok ch1 NewConnectionManager world0) = Returns None
   \<and> fst (snd (Connect b_ok ch1 NewConnectionManager world0)) = m_ch
   \<and> fst (Disconnect b_close_fails ''c2'' m_ch w_ch)
       = Some (WrapError ''oshibka otklyucheniya: close failed'' (ErrorString ''close failed''))
   \<and> GetDriver ''c2'' (fst (snd (Disconnect b_close_fails ''c2'' m_ch w_ch)))
       = Inr (DClickHouse (ClickHouseDriver (Some 0) ch1))
   \<and> fst (Connect b_ok pg1 NewConnectionManager world0) = Returns None
   \<and> connManager app_live = fst (snd (Connect b_ok pg1 NewConnectionManager world0))
   \<and> fst (DeleteConnectionHandler e_down delete_c1 app_live) = Returns (204, NoContent)
   \<and> elems (snd (DeleteConnectionHandler e_down delete_c1 app_live))
        (connections (snd (DeleteConnectionHandler e_down delete_c1 app_live))) = []
   \<and> GetDriver ''c1'' (connManager (snd (DeleteConnectionHandler e_down delete_c1 app_live)))
       = Inr (DPostgreSQL (PostgreSQLDriver (Some 0) pg1))"
  unfolding Disconnect_ch_close_fails DeleteConnectionHandler_down Connect_ch1 Connect_pg1
  by (simp add: GetDriver_def m_ch_eq m_pg_eq app_live_def elems_def)

section \<open>Verified properties of the adapters\<close>

lemma pg_rows_length: "length (pg_rows cols fs) = length (filter (\<lambda>f. \<not> isl f) fs)"
  by (induction cols fs rule: pg_rows.induct) simp_all

lemma ch_rows_length: "length (ch_rows fmt cols fs) = length (filter (\<lambda>f. \<not> isl f) fs)"
  by (induction fmt cols fs rule: ch_rows.induct) simp_all

lemma Since_total: "Since q = query_ns q + fetch_ns q + normalize_ns q"
  by (simp add: Since_def)

text \<open>
  C7 (as the code has it). Whenever \<open>ExecuteQuery\<close> of the PostgreSQL or ClickHouse
  adapter returns a response, \<open>rowCount\<close> is the length of \<open>rows\<close>. When the backend
  accepted the query, the response carries no error, \<open>rows\<close> has one entry per row that
  could be read, and the elapsed time is the whole milliseconds between the reading of
  the clock before the backend call and the reading after the row loop: the time in
  the backend call, in fetching the rows and in building the row maps.
\<close>

theorem ExecuteQuery_rowCount_and_elapsed:
  "(PostgreSQLDriver_ExecuteQuery q query pg = Inr r \<longrightarrow> RowCount r = int (length (Rows r)))
   \<and> (ClickHouseDriver_ExecuteQuery q query ch = Inr r \<longrightarrow> RowCount r = int (length (Rows r)))
   \<and> (PostgreSQLDriver_ExecuteQuery q query pg = Inr r \<and> run_query q query = Inr rs \<longrightarrow>
        ErrorField r = []
        \<and> length (Rows r) = length (filter (\<lambda>f. \<not> isl f) (fetches rs))
        \<and> ExecutionTime r = int ((query_ns q + fetch_ns q + normalize_ns q) div 1000000))
   \<and> (ClickHouseDriver_ExecuteQuery q query ch = Inr r \<and> run_query q query = Inr rs \<longrightarrow>
        ErrorField r = []
        \<and> length (Rows r) = length (filter (\<lambda>f. \<not> isl f) (fetches rs))
        \<and> ExecutionTime r = int ((query_ns q + fetch_ns q + normalize_ns q) div 1000000))"
proof (intro conjI impI)
  assume "PostgreSQLDriver_ExecuteQuery q query pg = Inr r"
  then show "RowCount r = int (length (Rows r))"
    by (auto simp: PostgreSQLDriver_ExecuteQuery_def QueryResponse_Error_def Let_def
             split: if_splits sum.splits)
next
  assume "ClickHouseDriver_ExecuteQuery q query ch = Inr r"
  then show "RowCount r = int (length (Rows r))"
    by (auto simp: ClickHouseDriver_ExecuteQuery_def QueryResponse_Error_def Let_def
             split: if_splits sum.splits)
next
  assume a: "PostgreSQLDriver_ExecuteQuery q query pg = Inr r \<and> run_query q query = Inr rs"
  then have r: "r = \<lparr>Columns = map fst (columns rs), Rows = pg_rows (map fst (columns rs)) (fetches rs),
                     RowCount = int (length (pg_rows (map fst (columns rs)) (fetches rs))),
                     ExecutionTime = Milliseconds (Since q), ErrorField = []\<rparr>"
    by (auto simp: PostgreSQLDriver_ExecuteQuery_def Let_def split: if_splits)
  show "ErrorField r = []" by (simp add: r)
  show "length (Rows r) = length (filter (\<lambda>f. \<not> isl f) (fetches rs))"
    by (simp add: r pg_rows_length)
  show "ExecutionTime r = int ((query_ns q + fetch_ns q + normalize_ns q) div 1000000)"
    by (simp add: r Milliseconds_def Since_total)
next
  assume a: "ClickHouseDriver_ExecuteQuery q query ch = Inr r \<and> run_query q query = Inr rs"
  then have r: "r = \<lparr>Columns = map fst (columns rs),
                     Rows = ch_rows (format_rfc3339 q) (columns rs) (fetches rs),
                     RowCount = int (length (ch_rows (format_rfc3339 q) (columns rs) (fetches rs))),
                     ExecutionTime = Milliseconds (Since q), ErrorField = []\<rparr>"
    by (auto simp: ClickHouseDriver_ExecuteQuery_def Let_def split: if_splits)
  show "ErrorField r = []" by (simp add: r)
  show "length (Rows r) = length (filter (\<lambda>f. \<not> isl f) (fetches rs))"
    by (simp add: r ch_rows_length)
  show "ExecutionTime r = int ((query_ns q + fetch_ns q + normalize_ns q) div 1000000)"
    by (simp add: r Milliseconds_def Since_total)
qed

lemma ExecuteQuery_slow_normalize:
  "PostgreSQLDriver_ExecuteQuery q_slow_normalize ''select id'' (PostgreSQLDriver (Some 0) pg1) =
     Inr \<lparr>Columns = [''id''], Rows = [[''id'' \<mapsto> VInt 1]], RowCount = 1, ExecutionTime = 2,
          ErrorField = []\<rparr>"
  by (simp add: PostgreSQLDriver_ExecuteQuery_def q_slow_normalize_def Let_def Milliseconds_def
        Since_def)

lemma run_query_slow:
  "run_query q_slow_normalize ''select id'' =
     Inr \<lparr>columns = [(''id'', ''Int64'')], fetches = [Inr [VInt 1]]\<rparr>"
  by (simp add: q_slow_normalize_def)

theorem ExecuteQuery_rowCount_and_elapsed_witness:
  "RowCount \<lparr>Columns = [''id''], Rows = [[''id'' \<mapsto> VInt 1]], RowCount = 1, ExecutionTime = 2,
             ErrorField = []\<rparr> = int (length [[''id'' \<mapsto> VInt (1::int)]])
   \<and> ExecutionTime \<lparr>Columns = [''id''], Rows = [[''id'' \<mapsto> VInt 1]], RowCount = 1,
        ExecutionTime = 2, ErrorField = []\<rparr>
       = int ((query_ns q_slow_normalize + fetch_ns q_slow_normalize
               + normalize_ns q_slow_normalize) div 1000000)"
proof -
  note t = ExecuteQuery_rowCount_and_elapsed
             [of q_slow_normalize "''select id''" "PostgreSQLDriver (Some 0) pg1"
                 "\<lparr>Columns = [''id''], Rows = [[''id'' \<mapsto> VInt 1]], RowCount = 1,
                   ExecutionTime = 2, ErrorField = []\<rparr>"
                 "ClickHouseDriver None zero_Connection"
                 "\<lparr>columns = [(''id'', ''Int64'')], fetches = [Inr [VInt 1]]\<rparr>"]
  have a: "RowCount \<lparr>Columns = [''id''], Rows = [[''id'' \<mapsto> VInt 1]], RowCount = 1,
             ExecutionTime = 2, ErrorField = []\<rparr> = int (length [[''id'' \<mapsto> VInt (1::int)]])"
    using t [THEN conjunct1] ExecuteQuery_slow_normalize by simp
  have b: "ExecutionTime \<lparr>Columns = [''id''], Rows = [[''id'' \<mapsto> VInt 1]], RowCount = 1,
        ExecutionTime = 2, ErrorField = []\<rparr>
       = int ((query_ns q_slow_normalize + fetch_ns q_slow_normalize
               + normalize_ns q_slow_normalize) div 1000000)"
    using t [THEN conjunct2, THEN conjunct2, THEN conjunct1] ExecuteQuery_slow_normalize
          run_query_slow
    by blast
  from a b show ?thesis by blast
qed

text \<open>
  C7 as stated fails: a query whose backend call and row fetching take no time and whose
  row maps take 2 ms to build is reported with an elapsed time of 2 ms, not 0.
\<close>

theorem ExecuteQuery_elapsed_counterexample:
  "map_sum Error ExecutionTime
     (PostgreSQLDriver_ExecuteQuery q_slow_normalize ''select id'' (PostgreSQLDriver (Some 0) pg1))
     = Inr 2
   \<and> map_sum Error ErrorField
       (PostgreSQLDriver_ExecuteQuery q_slow_normalize ''select id'' (PostgreSQLDriver (Some 0) pg1))
       = Inr []
   \<and> Milliseconds (query_ns q_slow_normalize + fetch_ns q_slow_normalize) = 0
   \<and> Milliseconds (normalize_ns q_slow_normalize) = 2"
  unfolding ExecuteQuery_slow_normalize
  by (simp add: q_slow_normalize_def Milliseconds_def)

lemma AerospikeDriver_crud_unsupported:
  "\<not> aerospike_checks_client c \<Longrightarrow>
     \<exists>msg. AerospikeDriver_crud rest c d = Returns (Some (ErrorString msg))
           \<and> ErrorString msg \<noteq> err_not_established"
  by (cases c) (simp_all add: aerospike_no_tables_def err_not_established_def)

lemma AerospikeDriver_crud_guarded:
  "aerospike_checks_client c \<Longrightarrow>
     AerospikeDriver_crud rest c (AerospikeDriver None conn) = Returns (Some err_not_established)"
  by (cases c) simp_all

text \<open>
  C10 (as the code has it). On a PostgreSQL, ClickHouse or Aerospike adapter that holds
  no session, \<open>IsConnected\<close> is false, and \<open>Ping\<close>, \<open>ExecuteQuery\<close> and every operation that
  checks the handle return the error "connection not established"; the Aerospike
  operations that do not check it return their own error instead. A new adapter holds
  no session, and neither does a PostgreSQL or Aerospike adapter after \<open>Disconnect\<close>.
\<close>

theorem unconnected_adapter_operations:
  "PostgreSQLDriver_IsConnected b (PostgreSQLDriver None conn) = False
   \<and> PostgreSQLDriver_Ping b (PostgreSQLDriver None conn) = Some err_not_established
   \<and> PostgreSQLDriver_ExecuteQuery q query (PostgreSQLDriver None conn) = Inl err_not_established
   \<and> PostgreSQLDriver_crud rest c (PostgreSQLDriver None conn) = Returns (Some err_not_established)
   \<and> ClickHouseDriver_IsConnected b (ClickHouseDriver None conn) = False
   \<and> ClickHouseDriver_Ping b (ClickHouseDriver None conn) = Some err_not_established
   \<and> ClickHouseDriver_ExecuteQuery q query (ClickHouseDriver None conn) = Inl err_not_established
   \<and> ClickHouseDriver_crud rest c (ClickHouseDriver None conn) = Returns (Some err_not_established)
   \<and> AerospikeDriver_IsConnected b (AerospikeDriver None conn) = False
   \<and> AerospikeDriver_Ping b (AerospikeDriver None conn) = Some err_not_established
   \<and> AerospikeDriver_ExecuteQuery query (AerospikeDriver None conn) = Inl err_not_established
   \<and> (aerospike_checks_client c \<longrightarrow>
        AerospikeDriver_crud rest c (AerospikeDriver None conn) = Returns (Some err_not_established))
   \<and> (\<not> aerospike_checks_client c \<longrightarrow>
        (\<exists>msg. AerospikeDriver_crud rest c (AerospikeDriver None conn) = Returns (Some (ErrorString msg))
               \<and> ErrorString msg \<noteq> err_not_established))
   \<and> NewPostgreSQLDriver = PostgreSQLDriver None zero_Connection
   \<and> NewClickHouseDriver = ClickHouseDriver None zero_Connection
   \<and> NewAerospikeDriver = AerospikeDriver None zero_Connection
   \<and> fst (snd (PostgreSQLDriver_Disconnect pg w)) = PostgreSQLDriver None (pg_conn pg)
   \<and> fst (snd (AerospikeDriver_Disconnect ae w)) = AerospikeDriver None (as_conn ae)"
proof -
  have pg: "fst (snd (PostgreSQLDriver_Disconnect pg w)) = PostgreSQLDriver None (pg_conn pg)"
    by (cases pg) (auto simp: PostgreSQLDriver_Disconnect_def split: option.splits)
  have ae: "fst (snd (AerospikeDriver_Disconnect ae w)) = AerospikeDriver None (as_conn ae)"
    by (cases ae) (auto simp: AerospikeDriver_Disconnect_def split: option.splits)
  show ?thesis
    using pg ae AerospikeDriver_crud_unsupported [of c rest "AerospikeDriver None conn"]
          AerospikeDriver_crud_guarded [of c rest conn]
    by (simp add: PostgreSQLDriver_IsConnected_def PostgreSQLDriver_Ping_def
          PostgreSQLDriver_ExecuteQuery_def PostgreSQLDriver_crud_def
          ClickHouseDriver_IsConnected_def ClickHouseDriver_Ping_def
          ClickHouseDriver_ExecuteQuery_def ClickHouseDriver_crud_def
          AerospikeDriver_IsConnected_def AerospikeDriver_Ping_def
          AerospikeDriver_ExecuteQuery_def NewPostgreSQLDriver_def NewClickHouseDriver_def
          NewAerospikeDriver_def)
qed

theorem unconnected_adapter_operations_witness:
  "AerospikeDriver_crud rest_ok ListDatabases (AerospikeDriver None zero_Connection)
     = Returns (Some err_not_established)
   \<and> (\<exists>msg. AerospikeDriver_crud rest_ok (CreateTable ''t'') (AerospikeDriver None zero_Connection)
              = Returns (Some (ErrorString msg)) \<and> ErrorString msg \<noteq> err_not_established)"
proof -
  have g: "aerospike_checks_client ListDatabases" by simp
  have u: "\<not> aerospike_checks_client (CreateTable ''t'')" by simp
  note t1 = unconnected_adapter_operations [of b_ok zero_Connection q_slow_normalize "[]" rest_ok
              ListDatabases "PostgreSQLDriver None zero_Connection" world0
              "AerospikeDriver None zero_Connection"]
  note t2 = unconnected_adapter_operations [of b_ok zero_Connection q_slow_normalize "[]" rest_ok
              "CreateTable ''t''" "PostgreSQLDriver None zero_Connection" world0
              "AerospikeDriver None zero_Connection"]
  from t1 g have a: "AerospikeDriver_crud rest_ok ListDatabases (AerospikeDriver None zero_Connection)
     = Returns (Some err_not_established)" by blast
  from t2 u have b: "\<exists>msg. AerospikeDriver_crud rest_ok (CreateTable ''t'') (AerospikeDriver None zero_Connection)
              = Returns (Some (ErrorString msg)) \<and> ErrorString msg \<noteq> err_not_established" by blast
  from a b show ?thesis by blast
qed

text \<open>
  C10 as stated fails: \<open>CreateTable\<close> on a new Aerospike adapter returns the
  no-tables error, not "connection not established"; and a ClickHouse adapter keeps
  its handle across \<open>Disconnect\<close>, so \<open>Ping\<close> afterwards returns what the closed
  connection answers.
\<close>

theorem unconnected_adapter_counterexample:
  "AerospikeDriver_crud rest_ok (CreateTable ''t'') NewAerospikeDriver = Returns (Some aerospike_no_tables)
   \<and> aerospike_no_tables \<noteq> err_not_established
   \<and> ClickHouseDriver_Disconnect b_ok (ClickHouseDriver (Some 0) ch1) w_ch
       = (None, ClickHouseDriver (Some 0) ch1, \<lparr>opened = 1, close_log = [0]\<rparr>)
   \<and> ClickHouseDriver_Ping b_ping_fails (ClickHouseDriver (Some 0) ch1) = Some (ErrorString ''timeout'')
   \<and> ClickHouseDriver_Ping b_ping_fails (ClickHouseDriver (Some 0) ch1) \<noteq> Some err_not_established"
  by (simp add: NewAerospikeDriver_def aerospike_no_tables_def err_not_established_def
        ClickHouseDriver_Disconnect_def ClickHouseDriver_Ping_def b_ok_def b_ping_fails_def
        w_ch_eq close_session_def)

text \<open>
  C6 (as the code has it). The Meilisearch user operations and the Aerospike table
  operations and \<open>CreateUser\<close> return, for every adapter state and every argument, a
  fixed error built by \<open>fmt.Errorf\<close> from a text; they never panic. Each of the eight
  handlers of the user and table operations, once the request has passed the handler's
  own checks (method, decodable body or non-empty query parameters) and the adapter is
  registered, answers any error the adapter returns with status 500 and the error text.
\<close>

theorem unsupported_operations_are_plain_errors:
  "MeilisearchDriver_crud rest (CreateUser username password database permissions) ms
     = Returns (Some meilisearch_no_users)
   \<and> MeilisearchDriver_crud rest ListUsers ms = Returns (Some meilisearch_no_users)
   \<and> MeilisearchDriver_crud rest (UpdateUser username password permissions) ms
       = Returns (Some meilisearch_no_users)
   \<and> MeilisearchDriver_crud rest (DeleteUser username) ms = Returns (Some meilisearch_no_users)
   \<and> AerospikeDriver_crud rest (CreateTable name) ae = Returns (Some aerospike_no_tables)
   \<and> AerospikeDriver_crud rest ListTables ae = Returns (Some aerospike_no_tables)
   \<and> AerospikeDriver_crud rest (DeleteTable name) ae = Returns (Some aerospike_no_tables)
   \<and> AerospikeDriver_crud rest (UpdateTable name newName) ae = Returns (Some aerospike_no_tables)
   \<and> AerospikeDriver_crud rest (CreateUser username password database permissions) ae
       = Returns (Some (ErrorString
           ''sozdanie polzovatelei v Aerospike trebuet Enterprise Edition i nastroiki cherez aerospike.conf''))
   \<and> (GetDriver connectionID m = Inr driver
        \<and> driver_crud rest other (CreateUser username password database permissions) driver
            = Returns (Some err)
      \<longrightarrow> CreateUserHandler rest other ''POST''
            (Some (CreateUserRequest connectionID username password database permissions)) m
            = Returns (500, Text (Error err)))
   \<and> (GetDriver connectionID m = Inr driver \<and> connectionID \<noteq> []
        \<and> driver_crud rest other ListUsers driver = Returns (Some err)
      \<longrightarrow> ListUsersHandler rest other ''GET'' connectionID m = Returns (500, Text (Error err)))
   \<and> (GetDriver connectionID m = Inr driver
        \<and> driver_crud rest other (UpdateUser username password permissions) driver
            = Returns (Some err)
      \<longrightarrow> UpdateUserHandler rest other ''PUT''
            (Some (UpdateUserRequest connectionID username password permissions)) m
            = Returns (500, Text (Error err)))
   \<and> (GetDriver connectionID m = Inr driver \<and> connectionID \<noteq> [] \<and> username \<noteq> []
        \<and> driver_crud rest other (DeleteUser username) driver = Returns (Some err)
      \<longrightarrow> DeleteUserHandler rest other ''DELETE'' connectionID username m
            = Returns (500, Text (Error err)))
   \<and> (GetDriver connectionID m = Inr driver
        \<and> driver_crud rest other (CreateTable name) driver = Returns (Some err)
      \<longrightarrow> CreateTableHandler rest other ''POST'' (Some (CreateTableRequest connectionID name)) m
            = Returns (500, Text (Error err)))
   \<and> (GetDriver connectionID m = Inr driver \<and> connectionID \<noteq> []
        \<and> driver_crud rest other ListTables driver = Returns (Some err)
      \<longrightarrow> ListTablesHandler rest other ''GET'' connectionID m = Returns (500, Text (Error err)))
   \<and> (GetDriver connectionID m = Inr driver \<and> connectionID \<noteq> [] \<and> name \<noteq> []
        \<and> driver_crud rest other (DeleteTable name) driver = Returns (Some err)
      \<longrightarrow> DeleteTableHandler rest other ''DELETE'' connectionID name m
            = Returns (500, Text (Error err)))
   \<and> (GetDriver connectionID m = Inr driver
        \<and> driver_crud rest other (UpdateTable name newName) driver = Returns (Some err)
      \<longrightarrow> UpdateTableHandler rest other ''PUT''
            (Some (UpdateTableRequest connectionID name newName)) m
            = Returns (500, Text (Error err)))"
  by (simp add: call_driver_def CreateUserHandler_def ListUsersHandler_def UpdateUserHandler_def
        DeleteUserHandler_def CreateTableHandler_def ListTablesHandler_def DeleteTableHandler_def
        UpdateTableHandler_def)

lemma CreateUserHandler_unsupported:
  "CreateUserHandler rest_ok other_ok ''POST'' (Some (new_user ''c3'')) m_two =
     Returns (500, Text ''Meilisearch ne podderzhivaet upravlenie polzovatelyami cherez API'')"
  by (simp add: CreateUserHandler_def call_driver_def new_user_def m_two_def GetDriver_def
        meilisearch_no_users_def)

lemma CreateUserHandler_backend_failure:
  "CreateUserHandler rest_refused other_ok ''POST'' (Some (new_user ''c1'')) m_two =
     Returns (500, Text ''oshibka sozdaniya polzovatelya: permission denied to create role'')"
  by (simp add: CreateUserHandler_def call_driver_def new_user_def m_two_def GetDriver_def
        rest_refused_def PostgreSQLDriver_crud_def Errorf_w_def)

lemma GetDriver_c3:
  "GetDriver ''c3'' m_two = Inr (DHTTP (HTTPDriver Meilisearch True ''http://ms:7700'' ms1 []))"
  by (simp add: GetDriver_def m_two_def)

lemma GetDriver_c4:
  "GetDriver ''c4'' m_as = Inr (DAerospike (AerospikeDriver (Some 0) as1))"
  by (simp add: GetDriver_def m_as_def)

theorem unsupported_operations_are_plain_errors_witness:
  "CreateUserHandler rest_ok other_ok ''POST''
     (Some (CreateUserRequest ''c3'' ''bob'' ''pw'' [] [])) m_two
     = Returns (500, Text (Error meilisearch_no_users))
   \<and> ListUsersHandler rest_ok other_ok ''GET'' ''c3'' m_two
       = Returns (500, Text (Error meilisearch_no_users))
   \<and> UpdateUserHandler rest_ok other_ok ''PUT''
       (Some (UpdateUserRequest ''c3'' ''bob'' ''pw'' [])) m_two
       = Returns (500, Text (Error meilisearch_no_users))
   \<and> DeleteUserHandler rest_ok other_ok ''DELETE'' ''c3'' ''bob'' m_two
       = Returns (500, Text (Error meilisearch_no_users))
   \<and> CreateTableHandler rest_ok other_ok ''POST'' (Some (CreateTableRequest ''c4'' ''t'')) m_as
       = Returns (500, Text (Error aerospike_no_tables))
   \<and> ListTablesHandler rest_ok other_ok ''GET'' ''c4'' m_as
       = Returns (500, Text (Error aerospike_no_tables))
   \<and> DeleteTableHandler rest_ok other_ok ''DELETE'' ''c4'' ''t'' m_as
       = Returns (500, Text (Error aerospike_no_tables))
   \<and> UpdateTableHandler rest_ok other_ok ''PUT'' (Some (UpdateTableRequest ''c4'' ''t'' ''t2'')) m_as
       = Returns (500, Text (Error aerospike_no_tables))"
proof -
  note u = unsupported_operations_are_plain_errors
            [of rest_ok "''bob''" "''pw''" "[]" "[]" "HTTPDriver Meilisearch True ''http://ms:7700'' ms1 []"
                "''t''" "AerospikeDriver None zero_Connection" "''t2''" "''c3''" m_two
                "DHTTP (HTTPDriver Meilisearch True ''http://ms:7700'' ms1 [])" other_ok
                meilisearch_no_users]
  note t = unsupported_operations_are_plain_errors
            [of rest_ok "''bob''" "''pw''" "[]" "[]" "HTTPDriver Meilisearch True ''http://ms:7700'' ms1 []"
                "''t''" "AerospikeDriver None zero_Connection" "''t2''" "''c4''" m_as
                "DAerospike (AerospikeDriver (Some 0) as1)" other_ok
                aerospike_no_tables]
  have ne: "''c3'' \<noteq> []" "''c4'' \<noteq> []" "''bob'' \<noteq> []" "''t'' \<noteq> []" by simp_all
  have cu: "driver_crud rest_ok other_ok (CreateUser ''bob'' ''pw'' [] [])
             (DHTTP (HTTPDriver Meilisearch True ''http://ms:7700'' ms1 []))
           = Returns (Some meilisearch_no_users)"
    by simp
  have lu: "driver_crud rest_ok other_ok ListUsers
             (DHTTP (HTTPDriver Meilisearch True ''http://ms:7700'' ms1 []))
           = Returns (Some meilisearch_no_users)"
    by simp
  have uu: "driver_crud rest_ok other_ok (UpdateUser ''bob'' ''pw'' [])
             (DHTTP (HTTPDriver Meilisearch True ''http://ms:7700'' ms1 []))
           = Returns (Some meilisearch_no_users)"
    by simp
  have du: "driver_crud rest_ok other_ok (DeleteUser ''bob'')
             (DHTTP (HTTPDriver Meilisearch True ''http://ms:7700'' ms1 []))
           = Returns (Some meilisearch_no_users)"
    by simp
  have ct: "driver_crud rest_ok other_ok (CreateTable ''t'') (DAerospike (AerospikeDriver (Some 0) as1))
           = Returns (Some aerospike_no_tables)"
    by simp
  have lt: "driver_crud rest_ok other_ok ListTables (DAerospike (AerospikeDriver (Some 0) as1))
           = Returns (Some aerospike_no_tables)"
    by simp
  have dt: "driver_crud rest_ok other_ok (DeleteTable ''t'') (DAerospike (AerospikeDriver (Some 0) as1))
           = Returns (Some aerospike_no_tables)"
    by simp
  have ut: "driver_crud rest_ok other_ok (UpdateTable ''t'' ''t2'')
             (DAerospike (AerospikeDriver (Some 0) as1))
           = Returns (Some aerospike_no_tables)"
    by simp
  have 1: "CreateUserHandler rest_ok other_ok ''POST''
     (Some (CreateUserRequest ''c3'' ''bob'' ''pw'' [] [])) m_two
     = Returns (500, Text (Error meilisearch_no_users))"
    using u GetDriver_c3 cu by blast
  have 2: "ListUsersHandler rest_ok other_ok ''GET'' ''c3'' m_two
       = Returns (500, Text (Error meilisearch_no_users))"
    using u GetDriver_c3 lu ne by blast
  have 3: "UpdateUserHandler rest_ok other_ok ''PUT''
       (Some (UpdateUserRequest ''c3'' ''bob'' ''pw'' [])) m_two
       = Returns (500, Text (Error meilisearch_no_users))"
    using u GetDriver_c3 uu by blast
  have 4: "DeleteUserHandler rest_ok other_ok ''DELETE'' ''c3'' ''bob'' m_two
       = Returns (500, Text (Error meilisearch_no_users))"
    using u GetDriver_c3 du ne by blast
  have 5: "CreateTableHandler rest_ok other_ok ''POST'' (Some (CreateTableRequest ''c4'' ''t'')) m_as
       = Returns (500, Text (Error aerospike_no_tables))"
    using t GetDriver_c4 ct by blast
  have 6: "ListTablesHandler rest_ok other_ok ''GET'' ''c4'' m_as
       = Returns (500, Text (Error aerospike_no_tables))"
    using t GetDriver_c4 lt ne by blast
  have 7: "DeleteTableHandler rest_ok other_ok ''DELETE'' ''c4'' ''t'' m_as
       = Returns (500, Text (Error aerospike_no_tables))"
    using t GetDriver_c4 dt ne by blast
  have 8: "UpdateTableHandler rest_ok other_ok ''PUT'' (Some (UpdateTableRequest ''c4'' ''t'' ''t2'')) m_as
       = Returns (500, Text (Error aerospike_no_tables))"
    using t GetDriver_c4 ut by blast
  from 1 2 3 4 5 6 7 8 show ?thesis by blast
qed

text \<open>
  C6 as stated fails: user creation on Meilisearch (unsupported) and on a PostgreSQL
  server that refuses the statement (a backend failure) are answered with the same
  status, 500; nothing but the text tells them apart.
\<close>

theorem unsupported_kind_counterexample:
  "driver_crud rest_ok other_ok (CreateUser ''bob'' ''pw'' [] [])
     (DHTTP (HTTPDriver Meilisearch True ''http://ms:7700'' ms1 []))
     = Returns (Some (ErrorString ''Meilisearch ne podderzhivaet upravlenie polzovatelyami cherez API''))
   \<and> response_status (CreateUserHandler rest_ok other_ok ''POST'' (Some (new_user ''c3'')) m_two)
       = Some 500
   \<and> response_status (CreateUserHandler rest_refused other_ok ''POST'' (Some (new_user ''c1'')) m_two)
       = Some 500
   \<and> response_status (CreateUserHandler rest_ok other_ok ''POST'' (Some (new_user ''c3'')) m_two)
       = response_status (CreateUserHandler rest_refused other_ok ''POST'' (Some (new_user ''c1'')) m_two)"
  by (simp add: CreateUserHandler_unsupported CreateUserHandler_backend_failure
        meilisearch_no_users_def)

end
